theory Spec2Isabelle
  imports Main "HOL-Library.AList" "HOL-Library.Word"
begin

section \<open>Go values shared by the three packages\<close>

text \<open>
  A Go \<^verbatim>\<open>[]byte\<close> and a Go \<^verbatim>\<open>string\<close> are both byte sequences; the conversions
  \<^verbatim>\<open>string(value)\<close> and \<^verbatim>\<open>[]byte(secretData)\<close> of the controller are the identity
  on them.
\<close>

type_synonym bytes = string

text \<open>
  A Go map \<^verbatim>\<open>map[string]V\<close> is an association list read through \<open>map_of\<close>; its
  entries, each key once, are \<open>AList.clearjunk\<close> of the list. A write \<^verbatim>\<open>m[k] = v\<close> is
  \<open>AList.update\<close>, \<^verbatim>\<open>delete(m, k)\<close> is \<open>AList.delete\<close>, \<^verbatim>\<open>len(m)\<close> counts the entries.
  A nil map that is only read, ranged over or measured behaves as the empty map;
  only a write to a nil map differs (it panics), so a map that the code writes to
  is an \<open>option\<close>, with \<open>None\<close> for nil.
\<close>

type_synonym 'v gomap = "(string \<times> 'v) list"

definition range_map :: "'v gomap \<Rightarrow> (string \<times> 'v) list" where
  "range_map m = AList.clearjunk m"

definition len_map :: "'v gomap \<Rightarrow> nat" where
  "len_map m = length (range_map m)"

text \<open>
  A Go \<^verbatim>\<open>error\<close> value: a plain error with its message, or a Kubernetes API status
  error with its reason. \<open>Error\<close> is the method \<^verbatim>\<open>Error()\<close>, which \<^verbatim>\<open>%v\<close> prints.
\<close>

datatype StatusReason = StatusReasonNotFound | StatusReasonAlreadyExists | StatusReasonUnknown

datatype error = errorString string | StatusError StatusReason string

fun Error :: "error \<Rightarrow> string" where
  "Error (errorString s) = s"
| "Error (StatusError reason s) = s"

fun IsNotFound :: "error \<Rightarrow> bool" where
  "IsNotFound (StatusError StatusReasonNotFound s) = True"
| "IsNotFound err = False"

text \<open>
  A Go call either returns or panics. None of the functions below recovers a panic,
  so a panic of a callee is a panic of the caller.
\<close>

datatype 'a outcome = Returns 'a | Panics error

section \<open>Package utils: FilterMapInPlace\<close>

text \<open>
  \<^verbatim>\<open>for _, key := range allowedKeys { allowedSet[key] = struct{}{} }\<close>
\<close>

fun build_allowedSet :: "string list \<Rightarrow> (string \<rightharpoonup> unit) \<Rightarrow> (string \<rightharpoonup> unit)" where
  "build_allowedSet [] allowedSet = allowedSet"
| "build_allowedSet (key # allowedKeys) allowedSet =
     build_allowedSet allowedKeys (allowedSet(key \<mapsto> ()))"

text \<open>
  \<^verbatim>\<open>for key := range m { if _, ok := allowedSet[key]; !ok { delete(m, key) } }\<close>
  The second argument lists the keys in the order in which the range statement
  visits them (Go leaves the order unspecified).
\<close>

fun range_delete :: "(string \<rightharpoonup> unit) \<Rightarrow> string list \<Rightarrow> bytes gomap \<Rightarrow> bytes gomap" where
  "range_delete allowedSet [] m = m"
| "range_delete allowedSet (key # keys) m =
     range_delete allowedSet keys
       (case allowedSet key of None \<Rightarrow> AList.delete key m | Some ok \<Rightarrow> m)"

definition FilterMapInPlace :: "bytes gomap \<Rightarrow> string list \<Rightarrow> bytes gomap" where
  "FilterMapInPlace m allowedKeys =
     (let allowedSet = build_allowedSet allowedKeys Map.empty
      in range_delete allowedSet (map fst (range_map m)) m)"

section \<open>Package orasclient\<close>

subsection \<open>The libraries it calls\<close>

text \<open>
  The ORAS library and the operating system are outside the repository. Their
  behaviour is a parameter \<open>env\<close>: for each call the client makes, the value or the
  error that call gives. \<open>os_ReadDir\<close> and \<open>os_ReadFile\<close> describe the file system
  as \<^verbatim>\<open>oras.Copy\<close> leaves it, which is the only moment at which the client reads it.
  The context argument and the default options are the same in every call and are
  left out.
\<close>

datatype CredStore = MemoryStore bytes

datatype HTTPClient = retry_DefaultClient

datatype AuthCache = auth_NewCache

record auth_Client =
  Client :: HTTPClient
  Cache :: AuthCache
  Credential :: "CredStore option"

record Repository =
  Reference :: string
  repo_Client :: "auth_Client option"

record Descriptor =
  desc_Digest :: string

datatype FileStore = FileStore string

record DirEntry =
  entry_Name :: string
  entry_IsDir :: bool

record oras_env =
  remote_NewRepository :: "string \<Rightarrow> error + Repository"
  credentials_NewMemoryStoreFromDockerConfig :: "bytes \<Rightarrow> error + CredStore"
  oras_Fetch :: "Repository \<Rightarrow> string \<Rightarrow> error + Descriptor"
  os_MkdirTemp :: "string \<Rightarrow> string \<Rightarrow> error + string"
  file_New :: "string \<Rightarrow> error + FileStore"
  oras_Copy :: "Repository \<Rightarrow> string \<Rightarrow> FileStore \<Rightarrow> string \<Rightarrow> error + Descriptor"
  os_ReadDir :: "string \<Rightarrow> error + DirEntry list"
  os_ReadFile :: "string \<Rightarrow> error + bytes"

definition filepath_Join :: "string \<Rightarrow> string \<Rightarrow> string" where
  \<comment> \<open>for a clean directory path and a plain file name, as \<^verbatim>\<open>os.ReadDir\<close> gives them\<close>
  "filepath_Join dir name = dir @ ''/'' @ name"

subsection \<open>Filemap, CreateClient, GetDigest\<close>

record Filemap =
  Digest :: string
  Files :: "bytes gomap"

definition CreateClient :: "oras_env \<Rightarrow> string \<Rightarrow> bytes \<Rightarrow> Repository outcome" where
  "CreateClient env registry creds =
     (case remote_NewRepository env registry of
        Inl err \<Rightarrow> Panics err
      | Inr repo \<Rightarrow>
          if length creds > 0 then
            (case credentials_NewMemoryStoreFromDockerConfig env creds of
               Inl err \<Rightarrow> Panics err
             | Inr credStore \<Rightarrow>
                 Returns (repo\<lparr>repo_Client := Some
                   \<lparr>Client = retry_DefaultClient, Cache = auth_NewCache,
                    Credential = Some credStore\<rparr>\<rparr>))
          else
            Returns (repo\<lparr>repo_Client := Some
              \<lparr>Client = retry_DefaultClient, Cache = auth_NewCache,
               Credential = None\<rparr>\<rparr>))"

definition GetDigest :: "oras_env \<Rightarrow> string \<Rightarrow> string \<Rightarrow> bytes \<Rightarrow> string outcome" where
  "GetDigest env registry tag creds =
     (case CreateClient env registry creds of
        Panics e \<Rightarrow> Panics e
      | Returns repo \<Rightarrow>
          (case oras_Fetch env repo tag of
             Inl err \<Rightarrow> Panics err
           | Inr manifestDescriptor \<Rightarrow> Returns (desc_Digest manifestDescriptor)))"

subsection \<open>GetFilesContentBinary and GetFiles\<close>

text \<open>
  The loop over the directory entries of \<^verbatim>\<open>GetFilesContentBinary\<close>, with the map
  \<^verbatim>\<open>files\<close> built so far. The Go function returns \<^verbatim>\<open>(nil, err)\<close> or \<^verbatim>\<open>(files, nil)\<close>.
\<close>

fun read_entries :: "oras_env \<Rightarrow> string \<Rightarrow> DirEntry list \<Rightarrow> bytes gomap \<Rightarrow> error + bytes gomap" where
  "read_entries env dirPath [] files = Inr files"
| "read_entries env dirPath (entry # entries) files =
     (if entry_IsDir entry then read_entries env dirPath entries files
      else
        (case os_ReadFile env (filepath_Join dirPath (entry_Name entry)) of
           Inl err \<Rightarrow>
             Inl (errorString
               (''fehler beim Lesen der Datei '' @ entry_Name entry @ '': '' @ Error err))
         | Inr content \<Rightarrow>
             read_entries env dirPath entries (AList.update (entry_Name entry) content files)))"

definition GetFilesContentBinary :: "oras_env \<Rightarrow> string \<Rightarrow> error + bytes gomap" where
  "GetFilesContentBinary env dirPath =
     (case os_ReadDir env dirPath of
        Inl err \<Rightarrow> Inl (errorString (''fehler beim Lesen des Verzeichnisses: '' @ Error err))
      | Inr entries \<Rightarrow> read_entries env dirPath entries [])"

text \<open>
  \<^verbatim>\<open>GetFiles\<close>. The deferred \<^verbatim>\<open>os.RemoveAll(tmpdir)\<close> and \<^verbatim>\<open>fs.Close()\<close> run on every
  exit, returning or panicking, and change neither; they act on the temporary
  directory only. The error of \<^verbatim>\<open>GetFilesContentBinary\<close> is assigned to \<^verbatim>\<open>err\<close> and not
  looked at: \<^verbatim>\<open>filesMap\<close> is then the nil map.
\<close>

definition GetFiles :: "oras_env \<Rightarrow> string \<Rightarrow> string \<Rightarrow> bytes \<Rightarrow> Filemap outcome" where
  "GetFiles env registy tag creds =
     (case os_MkdirTemp env ''/tmp'' ''oras'' of
        Inl err \<Rightarrow> Panics err
      | Inr tmpdir \<Rightarrow>
          (case file_New env tmpdir of
             Inl err \<Rightarrow> Panics err
           | Inr fs \<Rightarrow>
               (case CreateClient env registy creds of
                  Panics e \<Rightarrow> Panics e
                | Returns repo \<Rightarrow>
                    (case oras_Copy env repo tag fs tag of
                       Inl err \<Rightarrow> Panics err
                     | Inr manifestDescriptor \<Rightarrow>
                         (let filesMap =
                                (case GetFilesContentBinary env tmpdir of
                                   Inl err \<Rightarrow> []
                                 | Inr files \<Rightarrow> files)
                          in Returns \<lparr>Digest = desc_Digest manifestDescriptor,
                                      Files = filesMap\<rparr>)))))"

section \<open>Package v1aplha1: the OCISecret resource\<close>

record SecretReference =
  ref_Name :: string
  ref_Namespace :: string

record Sync =
  sync_Files :: "string list"

record OCISecretSpec =
  OrasArtefact :: string
  ArtefactRegistry :: string
  Sync :: Sync
  ArtefactPullSecret :: SecretReference
  TargetSecret :: SecretReference

record OwnerReference =
  owner_APIVersion :: string
  owner_Kind :: string
  owner_Name :: string
  owner_UID :: string
  Controller :: "bool option"
  BlockOwnerDeletion :: "bool option"

text \<open>\<^verbatim>\<open>TypeMeta\<close> and the fields of \<^verbatim>\<open>ObjectMeta\<close> that the controller touches.\<close>

record K8sObject =
  APIVersion :: string
  Kind :: string
  Name :: string
  Namespace :: string
  UID :: string
  Annotations :: "string gomap option"
  OwnerReferences :: "OwnerReference list"

record OCISecret = K8sObject +
  Spec :: OCISecretSpec

record Secret = K8sObject +
  Data :: "bytes gomap"

section \<open>Package controller\<close>

subsection \<open>The cluster behind the client\<close>

text \<open>
  The reconciler reads and writes the cluster through \<^verbatim>\<open>client.Client\<close>. The cluster
  is a state: the OCISecret and Secret objects by namespace and name, the calls made
  so far (to the cluster and to the registry), and \<open>faults\<close>, which makes the call
  number \<open>n\<close> fail with an error of any kind, for the failures that do not come from
  the stored objects. Without a fault, \<^verbatim>\<open>Get\<close> gives the stored object or a NotFound
  error, \<^verbatim>\<open>Create\<close> stores a new object, and \<^verbatim>\<open>Update\<close> replaces a stored one.
  Log output is not part of the state.
\<close>

type_synonym NamespacedName = "string \<times> string"

datatype call =
    GetOCISecret NamespacedName
  | GetSecret NamespacedName
  | CreateSecret Secret
  | UpdateSecret Secret
  | CallGetDigest string string bytes
  | CallGetFiles string string bytes

record world =
  ocisecrets :: "NamespacedName \<rightharpoonup> OCISecret"
  secrets :: "NamespacedName \<rightharpoonup> Secret"
  faults :: "nat \<Rightarrow> error option"
  calls :: "call list"

definition called :: "call \<Rightarrow> world \<Rightarrow> world" where
  "called c w = w\<lparr>calls := calls w @ [c]\<rparr>"

definition fault :: "world \<Rightarrow> error option" where
  "fault w = faults w (length (calls w))"

definition Get_OCISecret :: "world \<Rightarrow> NamespacedName \<Rightarrow> (error + OCISecret) \<times> world" where
  "Get_OCISecret w key =
     (case fault w of
        Some err \<Rightarrow> (Inl err, called (GetOCISecret key) w)
      | None \<Rightarrow>
          (case ocisecrets w key of
             None \<Rightarrow> (Inl (StatusError StatusReasonNotFound ''not found''),
                       called (GetOCISecret key) w)
           | Some obj \<Rightarrow> (Inr obj, called (GetOCISecret key) w)))"

definition Get_Secret :: "world \<Rightarrow> NamespacedName \<Rightarrow> (error + Secret) \<times> world" where
  "Get_Secret w key =
     (case fault w of
        Some err \<Rightarrow> (Inl err, called (GetSecret key) w)
      | None \<Rightarrow>
          (case secrets w key of
             None \<Rightarrow> (Inl (StatusError StatusReasonNotFound ''not found''),
                       called (GetSecret key) w)
           | Some obj \<Rightarrow> (Inr obj, called (GetSecret key) w)))"

definition Create_Secret :: "world \<Rightarrow> Secret \<Rightarrow> error option \<times> world" where
  "Create_Secret w obj =
     (case fault w of
        Some err \<Rightarrow> (Some err, called (CreateSecret obj) w)
      | None \<Rightarrow>
          (case secrets w (Namespace obj, Name obj) of
             Some old \<Rightarrow> (Some (StatusError StatusReasonAlreadyExists ''already exists''),
                          called (CreateSecret obj) w)
           | None \<Rightarrow> (None, called (CreateSecret obj)
                        (w\<lparr>secrets := (secrets w)((Namespace obj, Name obj) \<mapsto> obj)\<rparr>))))"

definition Update_Secret :: "world \<Rightarrow> Secret \<Rightarrow> error option \<times> world" where
  "Update_Secret w obj =
     (case fault w of
        Some err \<Rightarrow> (Some err, called (UpdateSecret obj) w)
      | None \<Rightarrow>
          (case secrets w (Namespace obj, Name obj) of
             None \<Rightarrow> (Some (StatusError StatusReasonNotFound ''not found''),
                       called (UpdateSecret obj) w)
           | Some old \<Rightarrow> (None, called (UpdateSecret obj)
                            (w\<lparr>secrets := (secrets w)((Namespace obj, Name obj) \<mapsto> obj)\<rparr>))))"

subsection \<open>Reconcile\<close>

text \<open>\<^verbatim>\<open>ctrl.Result\<close>; \<^verbatim>\<open>time.Duration\<close> is an int64 count of nanoseconds.\<close>

record Result =
  Requeue :: bool
  RequeueAfter :: "64 word"

definition Second :: "64 word" where
  "Second = 1000000000"

definition Result_empty :: Result where
  \<comment> \<open>\<^verbatim>\<open>ctrl.Result{}\<close>\<close>
  "Result_empty = \<lparr>Requeue = False, RequeueAfter = 0\<rparr>"

type_synonym reconciled = "(Result \<times> error option) outcome \<times> world"

definition rev_annotation :: string where
  "rev_annotation = ''OCISecret.operator.rev''"

definition index_Annotations :: "string gomap option \<Rightarrow> string \<Rightarrow> string" where
  \<comment> \<open>\<^verbatim>\<open>Annotations[k]\<close>: the empty string for a missing key and for the nil map\<close>
  "index_Annotations a k =
     (case a of
        None \<Rightarrow> []
      | Some m \<Rightarrow> (case map_of m k of None \<Rightarrow> [] | Some v \<Rightarrow> v))"

text \<open>
  Lines 206 to 210: the filter is applied only when the list of files of the spec is
  not empty.
\<close>

definition filter_Files :: "bytes gomap \<Rightarrow> string list \<Rightarrow> bytes gomap" where
  "filter_Files files allowedKeys =
     (if length allowedKeys > 0 then FilterMapInPlace files allowedKeys else files)"

text \<open>
  Lines 197 to 229: the check whether the target Secret needs an update, the update,
  and step 5. The local variable \<^verbatim>\<open>TargetSecret\<close> is \<open>targetSecret\<close> here, the name
  \<open>TargetSecret\<close> being the field of the spec. The assignment to \<^verbatim>\<open>TargetSecret.Annotations[...]\<close> panics when the
  Secret that was read has no annotations (a nil map).
\<close>

definition Reconcile_update ::
  "oras_env \<Rightarrow> world \<Rightarrow> OCISecret \<Rightarrow> string \<Rightarrow> string \<Rightarrow> Secret \<Rightarrow> reconciled" where
  "Reconcile_update env w OCIsecret secretData currentDigest targetSecret =
     (if index_Annotations (Annotations targetSecret) rev_annotation \<noteq> currentDigest
         \<or> len_map (Data targetSecret) \<noteq> length (sync_Files (Sync (Spec OCIsecret)))
      then
        (case GetFiles env (ArtefactRegistry (Spec OCIsecret)) (OrasArtefact (Spec OCIsecret))
                secretData of
           Panics e \<Rightarrow>
             (Panics e,
              called (CallGetFiles (ArtefactRegistry (Spec OCIsecret))
                        (OrasArtefact (Spec OCIsecret)) secretData) w)
         | Returns content \<Rightarrow>
             (let w1 = called (CallGetFiles (ArtefactRegistry (Spec OCIsecret))
                                 (OrasArtefact (Spec OCIsecret)) secretData) w;
                  files = filter_Files (Files content) (sync_Files (Sync (Spec OCIsecret)))
              in
                (case Annotations targetSecret of
                   None \<Rightarrow> (Panics (errorString ''assignment to entry in nil map''), w1)
                 | Some annotations \<Rightarrow>
                     (case Update_Secret w1
                             (targetSecret\<lparr>Data := files,
                                Annotations :=
                                  Some (AList.update rev_annotation (Digest content)
                                          annotations)\<rparr>) of
                        (Some err, w2) \<Rightarrow> (Returns (Result_empty, Some err), w2)
                      | (None, w2) \<Rightarrow>
                          (Returns (\<lparr>Requeue = False, RequeueAfter = 60 * Second\<rparr>, None),
                           w2)))))
      else (Returns (\<lparr>Requeue = False, RequeueAfter = 60 * Second\<rparr>, None), w))"

text \<open>Lines 189 to 195: step 4b, the second read of the target Secret.\<close>

definition Reconcile_refresh ::
  "oras_env \<Rightarrow> world \<Rightarrow> OCISecret \<Rightarrow> string \<Rightarrow> string \<Rightarrow> reconciled" where
  "Reconcile_refresh env w OCIsecret secretData currentDigest =
     (case Get_Secret w (ref_Namespace (TargetSecret (Spec OCIsecret)),
                         ref_Name (TargetSecret (Spec OCIsecret))) of
        (Inl err, w1) \<Rightarrow> (Returns (Result_empty, Some err), w1)
      | (Inr targetSecret, w1) \<Rightarrow>
          Reconcile_update env w1 OCIsecret secretData currentDigest targetSecret)"

text \<open>
  The Secret that lines 154 to 173 build when the target is absent. Fields that the
  literal does not set have their zero value.
\<close>

definition new_TargetSecret :: "OCISecret \<Rightarrow> Secret" where
  "new_TargetSecret OCIsecret =
     \<lparr>APIVersion = [], Kind = [],
      Name = ref_Name (TargetSecret (Spec OCIsecret)),
      Namespace = ref_Namespace (TargetSecret (Spec OCIsecret)),
      UID = [],
      Annotations = Some [(''OCISecret.operator.rev'', ''00000'')],
      OwnerReferences =
        [\<lparr>owner_APIVersion = APIVersion OCIsecret,
          owner_Kind = Kind OCIsecret,
          owner_Name = Name OCIsecret,
          owner_UID = UID OCIsecret,
          Controller = Some True,
          BlockOwnerDeletion = Some True\<rparr>],
      Data = []\<rparr>"

text \<open>
  Lines 136 to 187: step 3 and step 4a. An error of \<^verbatim>\<open>Create\<close> is logged and the
  pass goes on.
\<close>

definition Reconcile_target :: "oras_env \<Rightarrow> world \<Rightarrow> OCISecret \<Rightarrow> string \<Rightarrow> reconciled" where
  "Reconcile_target env w OCIsecret secretData =
     (case GetDigest env (ArtefactRegistry (Spec OCIsecret)) (OrasArtefact (Spec OCIsecret))
             secretData of
        Panics e \<Rightarrow>
          (Panics e,
           called (CallGetDigest (ArtefactRegistry (Spec OCIsecret))
                     (OrasArtefact (Spec OCIsecret)) secretData) w)
      | Returns currentDigest \<Rightarrow>
          (case Get_Secret
                  (called (CallGetDigest (ArtefactRegistry (Spec OCIsecret))
                             (OrasArtefact (Spec OCIsecret)) secretData) w)
                  (ref_Namespace (TargetSecret (Spec OCIsecret)),
                   ref_Name (TargetSecret (Spec OCIsecret))) of
             (Inl err, w1) \<Rightarrow>
               if IsNotFound err then
                 (case Create_Secret w1 (new_TargetSecret OCIsecret) of
                    (created, w2) \<Rightarrow>
                      Reconcile_refresh env w2 OCIsecret secretData currentDigest)
               else (Returns (Result_empty, Some err), w1)
           | (Inr found, w1) \<Rightarrow>
               Reconcile_refresh env w1 OCIsecret secretData currentDigest))"

text \<open>
  Lines 123 to 127: the range over the data of the pull secret, with the value of
  \<^verbatim>\<open>secretData\<close> so far.
\<close>

fun range_dockerconfigjson :: "(string \<times> bytes) list \<Rightarrow> string \<Rightarrow> string" where
  "range_dockerconfigjson [] secretData = secretData"
| "range_dockerconfigjson ((key, v) # entries) secretData =
     range_dockerconfigjson entries
       (if key = ''.dockerconfigjson'' then v else secretData)"

text \<open>Lines 96 to 134: step 2.\<close>

definition Reconcile_pullsecret :: "oras_env \<Rightarrow> world \<Rightarrow> OCISecret \<Rightarrow> reconciled" where
  "Reconcile_pullsecret env w OCIsecret =
     (if ref_Name (ArtefactPullSecret (Spec OCIsecret)) = []
         \<or> ref_Namespace (ArtefactPullSecret (Spec OCIsecret)) = []
      then Reconcile_target env w OCIsecret []
      else
        (case Get_Secret w (ref_Namespace (ArtefactPullSecret (Spec OCIsecret)),
                            ref_Name (ArtefactPullSecret (Spec OCIsecret))) of
           (Inl err, w1) \<Rightarrow> (Returns (Result_empty, Some err), w1)
         | (Inr OCIPullSecret, w1) \<Rightarrow>
             (let secretData = range_dockerconfigjson (range_map (Data OCIPullSecret)) []
              in if secretData = [] then (Returns (Result_empty, None), w1)
                 else Reconcile_target env w1 OCIsecret secretData)))"

text \<open>Lines 78 to 94: step 1, and the rest of the pass.\<close>

definition Reconcile :: "oras_env \<Rightarrow> world \<Rightarrow> NamespacedName \<Rightarrow> reconciled" where
  "Reconcile env w req =
     (case Get_OCISecret w req of
        (Inl err, w1) \<Rightarrow>
          if IsNotFound err then (Returns (Result_empty, None), w1)
          else (Returns (Result_empty, Some err), w1)
      | (Inr OCIsecret, w1) \<Rightarrow> Reconcile_pullsecret env w1 OCIsecret)"

subsection \<open>The passes that end early without an error\<close>

text \<open>
  The two early returns of \<^verbatim>\<open>Reconcile\<close> with a nil error, as conditions on the
  cluster: the OCISecret is not found (line 89), and the pull secret is read but
  gives no data under the key \<open>.dockerconfigjson\<close> (line 132).
\<close>

definition OCISecret_not_found :: "world \<Rightarrow> NamespacedName \<Rightarrow> bool" where
  "OCISecret_not_found w req =
     (case fst (Get_OCISecret w req) of Inl err \<Rightarrow> IsNotFound err | Inr obj \<Rightarrow> False)"

definition no_pullsecret_data :: "world \<Rightarrow> NamespacedName \<Rightarrow> bool" where
  "no_pullsecret_data w req =
     (case Get_OCISecret w req of
        (Inl err, w1) \<Rightarrow> False
      | (Inr obj, w1) \<Rightarrow>
          ref_Name (ArtefactPullSecret (Spec obj)) \<noteq> [] \<and>
          ref_Namespace (ArtefactPullSecret (Spec obj)) \<noteq> [] \<and>
          (case fst (Get_Secret w1 (ref_Namespace (ArtefactPullSecret (Spec obj)),
                                    ref_Name (ArtefactPullSecret (Spec obj)))) of
             Inl err \<Rightarrow> False
           | Inr pullSecret \<Rightarrow>
               (case map_of (Data pullSecret) ''.dockerconfigjson'' of
                  None \<Rightarrow> True
                | Some v \<Rightarrow> v = [])))"

subsection \<open>Notions for stating what a pass does\<close>

text \<open>
  Step 2 gives the credential bytes \<open>secretData\<close> and lets the pass go on: the pull
  secret reference is empty and the bytes are empty, or the referenced Secret is in
  the cluster and holds the bytes, not empty, under \<open>.dockerconfigjson\<close>.
  \<open>pullsecret_calls\<close> are the calls that step 2 makes then.
\<close>

definition credential_resolves :: "world \<Rightarrow> OCISecret \<Rightarrow> string \<Rightarrow> bool" where
  "credential_resolves w obj secretData =
     (if ref_Name (ArtefactPullSecret (Spec obj)) = []
         \<or> ref_Namespace (ArtefactPullSecret (Spec obj)) = []
      then secretData = []
      else
        (case secrets w (ref_Namespace (ArtefactPullSecret (Spec obj)),
                         ref_Name (ArtefactPullSecret (Spec obj))) of
           None \<Rightarrow> False
         | Some pullSecret \<Rightarrow>
             map_of (Data pullSecret) ''.dockerconfigjson'' = Some secretData \<and>
             secretData \<noteq> []))"

definition pullsecret_calls :: "OCISecret \<Rightarrow> call list" where
  "pullsecret_calls obj =
     (if ref_Name (ArtefactPullSecret (Spec obj)) = []
         \<or> ref_Namespace (ArtefactPullSecret (Spec obj)) = []
      then []
      else [GetSecret (ref_Namespace (ArtefactPullSecret (Spec obj)),
                       ref_Name (ArtefactPullSecret (Spec obj)))])"

text \<open>The calls that write to the cluster, and the call that fetches the content.\<close>

fun is_write :: "call \<Rightarrow> bool" where
  "is_write (CreateSecret obj) = True"
| "is_write (UpdateSecret obj) = True"
| "is_write c = False"

fun is_content_fetch :: "call \<Rightarrow> bool" where
  "is_content_fetch (CallGetFiles registry tag creds) = True"
| "is_content_fetch c = False"

text \<open>In a cluster every Secret is stored under its own namespace and name.\<close>

definition stored_by_name :: "world \<Rightarrow> bool" where
  "stored_by_name w =
     (\<forall>key obj. secrets w key = Some obj \<longrightarrow> (Namespace obj, Name obj) = key)"

text \<open>
  The form \<open><algorithm>:<hex>\<close> of a digest (\<^verbatim>\<open>sha256:1234abcd...\<close> in the comment of
  \<^verbatim>\<open>GetDigest\<close>): an algorithm name without a colon, a colon, and hexadecimal digits.
\<close>

definition digest_form :: "string \<Rightarrow> bool" where
  "digest_form s =
     (let algorithm = takeWhile (\<lambda>c. c \<noteq> CHR '':'') s;
          rest = dropWhile (\<lambda>c. c \<noteq> CHR '':'') s
      in algorithm \<noteq> [] \<and> rest \<noteq> [] \<and> tl rest \<noteq> [] \<and>
         list_all (\<lambda>c. c \<in> set ''0123456789abcdef'') (tl rest))"

section \<open>An example registry and cluster\<close>

text \<open>
  A registry with one repository \<open>registry.example/repo\<close>, whose tag \<open>v1\<close> holds the
  files \<open>a.txt\<close> and \<open>b.txt\<close> and a directory; addresses without a slash and
  credentials that do not start with a brace are malformed, other tags are not found.
\<close>

definition example_env :: oras_env where
  "example_env =
     \<lparr>remote_NewRepository = (\<lambda>registry.
        if CHR ''/'' \<in> set registry then Inr \<lparr>Reference = registry, repo_Client = None\<rparr>
        else Inl (errorString ''invalid reference: missing registry or repository'')),
      credentials_NewMemoryStoreFromDockerConfig = (\<lambda>creds.
        if take 1 creds = ''{'' then Inr (MemoryStore creds)
        else Inl (errorString ''failed to decode config'')),
      oras_Fetch = (\<lambda>repo tag.
        if tag = ''v1'' then Inr \<lparr>desc_Digest = ''sha256:ab12''\<rparr>
        else Inl (errorString ''not found'')),
      os_MkdirTemp = (\<lambda>dir pattern. Inr (dir @ ''/'' @ pattern @ ''1'')),
      file_New = (\<lambda>workingDir. Inr (FileStore workingDir)),
      oras_Copy = (\<lambda>repo src fs dst.
        if src = ''v1'' then Inr \<lparr>desc_Digest = ''sha256:ab12''\<rparr>
        else Inl (errorString ''not found'')),
      os_ReadDir = (\<lambda>dirPath.
        Inr [\<lparr>entry_Name = ''a.txt'', entry_IsDir = False\<rparr>,
             \<lparr>entry_Name = ''b.txt'', entry_IsDir = False\<rparr>,
             \<lparr>entry_Name = ''blobs'', entry_IsDir = True\<rparr>]),
      os_ReadFile = (\<lambda>path.
        if path = ''/tmp/oras1/a.txt'' then Inr ''A''
        else if path = ''/tmp/oras1/b.txt'' then Inr ''B''
        else Inl (errorString ''no such file''))\<rparr>"

text \<open>The same registry when the temporary directory cannot be read after the copy.\<close>

definition example_env_unreadable :: oras_env where
  "example_env_unreadable =
     example_env\<lparr>os_ReadDir := (\<lambda>dirPath. Inl (errorString ''permission denied''))\<rparr>"

text \<open>The same registry when no temporary directory can be made.\<close>

definition example_env_no_tmp :: oras_env where
  "example_env_no_tmp =
     example_env\<lparr>os_MkdirTemp :=
       (\<lambda>dir pattern. Inl (errorString ''no space left on device''))\<rparr>"

text \<open>
  An OCISecret \<open>sync\<close> for the tag \<open>tag\<close> of that repository, with the list of files
  \<open>files\<close> and the pull secret reference \<open>pull\<close>; its target is the Secret
  \<open>target\<close> of the namespace \<open>default\<close>.
\<close>

definition example_OCISecret :: "string \<Rightarrow> string list \<Rightarrow> SecretReference \<Rightarrow> OCISecret" where
  "example_OCISecret tag files pull =
     \<lparr>APIVersion = ''oci-sync.brtrm.de/v1aplha1'', Kind = ''OCISecret'',
      Name = ''sync'', Namespace = [], UID = ''uid-1'',
      Annotations = None, OwnerReferences = [],
      Spec = \<lparr>OrasArtefact = tag, ArtefactRegistry = ''registry.example/repo'',
               Sync = \<lparr>sync_Files = files\<rparr>,
               ArtefactPullSecret = pull,
               TargetSecret = \<lparr>ref_Name = ''target'', ref_Namespace = ''default''\<rparr>\<rparr>\<rparr>"

definition example_anonymous :: SecretReference where
  "example_anonymous = \<lparr>ref_Name = [], ref_Namespace = []\<rparr>"

definition example_pull :: SecretReference where
  "example_pull = \<lparr>ref_Name = ''pull'', ref_Namespace = ''default''\<rparr>"

definition example_Secret :: "string \<Rightarrow> string gomap option \<Rightarrow> bytes gomap \<Rightarrow> Secret" where
  "example_Secret name annotations content =
     \<lparr>APIVersion = ''v1'', Kind = ''Secret'',
      Name = name, Namespace = ''default'', UID = ''uid-2'',
      Annotations = annotations, OwnerReferences = [],
      Data = content\<rparr>"

text \<open>A cluster with the OCISecret \<open>obj\<close>, the Secrets \<open>objs\<close>, no fault and no call yet.\<close>

definition example_world :: "OCISecret \<Rightarrow> Secret list \<Rightarrow> world" where
  "example_world obj objs =
     \<lparr>ocisecrets = [([], ''sync'') \<mapsto> obj],
      secrets = map_of (map (\<lambda>s. ((Namespace s, Name s), s)) objs),
      faults = (\<lambda>n. None),
      calls = []\<rparr>"

section \<open>Properties of FilterMapInPlace\<close>

lemma build_allowedSet_dom:
  "dom (build_allowedSet allowedKeys s) = dom s \<union> set allowedKeys"
  by (induction allowedKeys arbitrary: s) auto

lemma allowedSet_lookup:
  "build_allowedSet allowedKeys Map.empty key = None \<longleftrightarrow> key \<notin> set allowedKeys"
proof -
  have "key \<in> dom (build_allowedSet allowedKeys Map.empty) \<longleftrightarrow> key \<in> set allowedKeys"
    by (simp add: build_allowedSet_dom)
  then show ?thesis
    unfolding domIff by blast
qed

lemma range_delete_lookup:
  "map_of (range_delete s keys m) k =
     (if k \<in> set keys \<and> s k = None then None else map_of m k)"
proof (induction keys arbitrary: m)
  case Nil
  show ?case by simp
next
  case (Cons key keys)
  show ?case
    by (cases "s key") (auto simp: Cons.IH delete_conv)
qed

lemma range_map_keys: "set (map fst (range_map m)) = fst ` set m"
  by (simp add: range_map_def dom_clearjunk)

lemma FilterMapInPlace_lookup:
  "map_of (FilterMapInPlace m allowedKeys) k =
     (if k \<in> set allowedKeys then map_of m k else None)"
proof -
  have "k \<notin> fst ` set m \<Longrightarrow> map_of m k = None"
    by (simp add: map_of_eq_None_iff)
  then show ?thesis
    unfolding FilterMapInPlace_def Let_def range_delete_lookup allowedSet_lookup range_map_keys
    by auto
qed

text \<open>The result does not depend on the order in which the keys are visited.\<close>

lemma range_order_irrelevant:
  assumes "set keys = fst ` set m"
  shows "map_of (range_delete (build_allowedSet allowedKeys Map.empty) keys m) =
         map_of (FilterMapInPlace m allowedKeys)"
proof
  fix k
  have "k \<notin> fst ` set m \<Longrightarrow> map_of m k = None"
    by (simp add: map_of_eq_None_iff)
  with assms show "map_of (range_delete (build_allowedSet allowedKeys Map.empty) keys m) k =
      map_of (FilterMapInPlace m allowedKeys) k"
    by (auto simp: FilterMapInPlace_lookup range_delete_lookup allowedSet_lookup)
qed

section \<open>Unfolding the model on concrete inputs\<close>

lemmas pass_defs =
  Reconcile_def Reconcile_pullsecret_def Reconcile_target_def Reconcile_refresh_def
  Reconcile_update_def Get_OCISecret_def Get_Secret_def Create_Secret_def Update_Secret_def
  fault_def called_def new_TargetSecret_def filter_Files_def index_Annotations_def
  rev_annotation_def len_map_def range_map_def Result_empty_def Let_def

lemmas fetch_defs =
  GetDigest_def GetFiles_def CreateClient_def GetFilesContentBinary_def filepath_Join_def

lemmas example_defs =
  example_env_def example_env_unreadable_def example_env_no_tmp_def example_OCISecret_def
  example_anonymous_def
  example_pull_def example_Secret_def example_world_def

section \<open>Properties of the steps of a pass\<close>

text \<open>
  The range over the data of the pull secret is a lookup of the key.
\<close>

lemma range_dockerconfigjson_lookup:
  "distinct (map fst entries) \<Longrightarrow>
   range_dockerconfigjson entries secretData =
     (case map_of entries ''.dockerconfigjson'' of None \<Rightarrow> secretData | Some v \<Rightarrow> v)"
proof (induction entries arbitrary: secretData)
  case Nil
  show ?case by simp
next
  case (Cons entry entries)
  obtain key v where entry: "entry = (key, v)" by (cases entry)
  from Cons.prems entry have d: "distinct (map fst entries)" and k: "key \<notin> fst ` set entries"
    by auto
  show ?case
  proof (cases "key = ''.dockerconfigjson''")
    case True
    with k have "map_of entries ''.dockerconfigjson'' = None"
      by (simp add: map_of_eq_None_iff)
    with True entry Cons.IH [OF d] show ?thesis by simp
  next
    case False
    with entry Cons.IH [OF d] show ?thesis by simp
  qed
qed

lemma secretData_lookup:
  "range_dockerconfigjson (range_map m) [] =
     (case map_of m ''.dockerconfigjson'' of None \<Rightarrow> [] | Some v \<Rightarrow> v)"
  by (simp add: range_map_def range_dockerconfigjson_lookup map_of_clearjunk)

text \<open>
  A pass that returns a nil error from step 3 on returns the delay of 60 seconds.
\<close>

lemma requeue_nonzero: "60 * Second \<noteq> (0 :: 64 word)"
  by (simp add: Second_def)

lemma Reconcile_update_delay:
  "fst (Reconcile_update env w OCIsecret secretData currentDigest targetSecret) = Returns (res, None)
   \<Longrightarrow> res = \<lparr>Requeue = False, RequeueAfter = 60 * Second\<rparr>"
  by (auto simp: Reconcile_update_def Let_def split: if_splits outcome.splits option.splits prod.splits)

lemma Reconcile_refresh_delay:
  "fst (Reconcile_refresh env w OCIsecret secretData currentDigest) = Returns (res, None)
   \<Longrightarrow> res = \<lparr>Requeue = False, RequeueAfter = 60 * Second\<rparr>"
  by (auto simp: Reconcile_refresh_def dest: Reconcile_update_delay split: prod.splits sum.splits)

lemma Reconcile_target_delay:
  "fst (Reconcile_target env w OCIsecret secretData) = Returns (res, None)
   \<Longrightarrow> res = \<lparr>Requeue = False, RequeueAfter = 60 * Second\<rparr>"
  by (auto simp: Reconcile_target_def dest: Reconcile_refresh_delay
      split: prod.splits sum.splits outcome.splits if_splits)

text \<open>
  What a recorded call leaves of the state.
\<close>

lemma no_fault: "\<forall>n. faults w n = None \<Longrightarrow> fault w = None"
  by (simp add: fault_def)

lemma called_simps:
  "faults (called c w) = faults w"
  "secrets (called c w) = secrets w"
  "ocisecrets (called c w) = ocisecrets w"
  "calls (called c w) = calls w @ [c]"
  by (simp_all add: called_def)

text \<open>
  Steps 1 and 2 without a fault: when the OCISecret is read and the credentials
  resolve, the pass goes on to step 3 with them.
\<close>

lemma Reconcile_to_target:
  assumes nofault: "\<forall>n. faults w n = None"
    and obj: "ocisecrets w req = Some obj"
    and cred: "credential_resolves w obj secretData"
  shows "Reconcile env w req =
           Reconcile_target env
             (w\<lparr>calls := calls w @ [GetOCISecret req] @ pullsecret_calls obj\<rparr>) obj secretData"
proof -
  let ?wa = "called (GetOCISecret req) w"
  have r1: "Reconcile env w req = Reconcile_pullsecret env ?wa obj"
    using obj no_fault [OF nofault] by (simp add: Reconcile_def Get_OCISecret_def)
  show ?thesis
  proof (cases "ref_Name (ArtefactPullSecret (Spec obj)) = []
                \<or> ref_Namespace (ArtefactPullSecret (Spec obj)) = []")
    case True
    with cred have sd: "secretData = []" by (simp add: credential_resolves_def)
    from True sd have "Reconcile_pullsecret env ?wa obj = Reconcile_target env ?wa obj secretData"
      by (auto simp: Reconcile_pullsecret_def)
    with r1 True show ?thesis
      by (simp add: called_def pullsecret_calls_def)
  next
    case False
    let ?pk = "(ref_Namespace (ArtefactPullSecret (Spec obj)),
                ref_Name (ArtefactPullSecret (Spec obj)))"
    from False cred obtain ps where ps: "secrets w ?pk = Some ps"
      "map_of (Data ps) ''.dockerconfigjson'' = Some secretData" "secretData \<noteq> []"
      by (auto simp: credential_resolves_def split: option.splits)
    let ?wb = "called (GetSecret ?pk) ?wa"
    have "fault ?wa = None" using nofault by (simp add: fault_def called_simps)
    then have "Get_Secret ?wa ?pk = (Inr ps, ?wb)"
      using ps by (simp add: Get_Secret_def called_simps)
    with False ps have "Reconcile_pullsecret env ?wa obj = Reconcile_target env ?wb obj secretData"
      by (simp add: Reconcile_pullsecret_def secretData_lookup Let_def)
    with r1 False show ?thesis
      by (simp add: called_def pullsecret_calls_def)
  qed
qed

text \<open>
  Steps 3 to 5 when the digest fetch panics.
\<close>

lemma Reconcile_target_digest_panics:
  assumes "GetDigest env (ArtefactRegistry (Spec obj)) (OrasArtefact (Spec obj)) secretData
             = Panics e"
  shows "Reconcile_target env w obj secretData =
           (Panics e,
            w\<lparr>calls := calls w @
                 [CallGetDigest (ArtefactRegistry (Spec obj)) (OrasArtefact (Spec obj))
                    secretData]\<rparr>)"
  using assms by (simp add: Reconcile_target_def called_def)

text \<open>
  Steps 3 to 4b without a fault: the target Secret \<open>t\<close> that step 5 works on is the
  stored one, or the new one when none is stored.
\<close>

lemma Reconcile_target_to_update:
  assumes nofault: "\<forall>n. faults w n = None"
    and digest: "GetDigest env (ArtefactRegistry (Spec obj)) (OrasArtefact (Spec obj)) secretData
                   = Returns currentDigest"
    and target: "secrets w (ref_Namespace (TargetSecret (Spec obj)),
                            ref_Name (TargetSecret (Spec obj))) = None
                   \<and> t = new_TargetSecret obj
                 \<or> secrets w (ref_Namespace (TargetSecret (Spec obj)),
                              ref_Name (TargetSecret (Spec obj))) = Some t"
  shows "Reconcile_target env w obj secretData =
           Reconcile_update env
             (w\<lparr>secrets := (secrets w)
                   ((ref_Namespace (TargetSecret (Spec obj)),
                     ref_Name (TargetSecret (Spec obj))) \<mapsto> t),
                calls := calls w @
                  [CallGetDigest (ArtefactRegistry (Spec obj)) (OrasArtefact (Spec obj))
                     secretData,
                   GetSecret (ref_Namespace (TargetSecret (Spec obj)),
                              ref_Name (TargetSecret (Spec obj)))] @
                  (if secrets w (ref_Namespace (TargetSecret (Spec obj)),
                                 ref_Name (TargetSecret (Spec obj))) = None
                   then [CreateSecret (new_TargetSecret obj)] else []) @
                  [GetSecret (ref_Namespace (TargetSecret (Spec obj)),
                              ref_Name (TargetSecret (Spec obj)))]\<rparr>)
             obj secretData currentDigest t"
proof -
  let ?tgt = "(ref_Namespace (TargetSecret (Spec obj)), ref_Name (TargetSecret (Spec obj)))"
  let ?reg = "ArtefactRegistry (Spec obj)"
  let ?tag = "OrasArtefact (Spec obj)"
  let ?new = "new_TargetSecret obj"
  let ?w0 = "called (CallGetDigest ?reg ?tag secretData) w"
  let ?w1 = "called (GetSecret ?tgt) ?w0"
  have f: "fault w' = None" if "faults w' = faults w" for w'
    using nofault that by (simp add: fault_def)
  have key: "(Namespace ?new, Name ?new) = ?tgt"
    by (simp add: new_TargetSecret_def)
  note [simp] = called_simps
  show ?thesis
  proof (cases "secrets w ?tgt")
    case None
    with target have t: "t = ?new" by simp
    let ?w2 = "called (CreateSecret ?new) (?w1\<lparr>secrets := (secrets ?w1)(?tgt \<mapsto> ?new)\<rparr>)"
    let ?w3 = "called (GetSecret ?tgt) ?w2"
    have g1: "Get_Secret ?w0 ?tgt = (Inl (StatusError StatusReasonNotFound ''not found''), ?w1)"
      using None f [of ?w0] by (simp add: Get_Secret_def)
    have c1: "Create_Secret ?w1 ?new = (None, ?w2)"
      using None f [of ?w1] key by (simp add: Create_Secret_def)
    have g2: "Get_Secret ?w2 ?tgt = (Inr ?new, ?w3)"
      using f [of ?w2] by (simp add: Get_Secret_def called_def)
    have "Reconcile_target env w obj secretData =
            Reconcile_update env ?w3 obj secretData currentDigest ?new"
      using digest g1 c1 g2 by (simp add: Reconcile_target_def Reconcile_refresh_def)
    moreover have "?w3 = w\<lparr>secrets := (secrets w)(?tgt \<mapsto> t),
        calls := calls w @ [CallGetDigest ?reg ?tag secretData, GetSecret ?tgt] @
          (if secrets w ?tgt = None then [CreateSecret ?new] else []) @ [GetSecret ?tgt]\<rparr>"
      using None t by (simp add: called_def)
    ultimately show ?thesis using t by simp
  next
    case (Some t')
    with target have t: "t' = t" by simp
    let ?w3 = "called (GetSecret ?tgt) ?w1"
    have g1: "Get_Secret ?w0 ?tgt = (Inr t, ?w1)"
      using Some t f [of ?w0] by (simp add: Get_Secret_def)
    have g2: "Get_Secret ?w1 ?tgt = (Inr t, ?w3)"
      using Some t f [of ?w1] by (simp add: Get_Secret_def)
    have "Reconcile_target env w obj secretData =
            Reconcile_update env ?w3 obj secretData currentDigest t"
      using digest g1 g2 by (simp add: Reconcile_target_def Reconcile_refresh_def)
    moreover have "(secrets w)(?tgt \<mapsto> t) = secrets w"
      using Some t by (auto simp: fun_upd_idem_iff)
    then have "?w3 = w\<lparr>secrets := (secrets w)(?tgt \<mapsto> t),
        calls := calls w @ [CallGetDigest ?reg ?tag secretData, GetSecret ?tgt] @
          (if secrets w ?tgt = None then [CreateSecret ?new] else []) @ [GetSecret ?tgt]\<rparr>"
      using Some by (simp add: called_def)
    ultimately show ?thesis by simp
  qed
qed

text \<open>
  Step 5 on the target Secret \<open>t\<close>: the ways it can go without a fault.
\<close>

lemma Reconcile_update_noop:
  assumes "index_Annotations (Annotations t) rev_annotation = currentDigest"
    and "len_map (Data t) = length (sync_Files (Sync (Spec obj)))"
  shows "Reconcile_update env w obj secretData currentDigest t =
           (Returns (\<lparr>Requeue = False, RequeueAfter = 60 * Second\<rparr>, None), w)"
  using assms by (simp add: Reconcile_update_def)

lemma Reconcile_update_fetch_panics:
  assumes "index_Annotations (Annotations t) rev_annotation \<noteq> currentDigest
           \<or> len_map (Data t) \<noteq> length (sync_Files (Sync (Spec obj)))"
    and "GetFiles env (ArtefactRegistry (Spec obj)) (OrasArtefact (Spec obj)) secretData
           = Panics e"
  shows "Reconcile_update env w obj secretData currentDigest t =
           (Panics e,
            w\<lparr>calls := calls w @
                 [CallGetFiles (ArtefactRegistry (Spec obj)) (OrasArtefact (Spec obj))
                    secretData]\<rparr>)"
  using assms by (auto simp: Reconcile_update_def called_def)

lemma Reconcile_update_nil_annotations:
  assumes "index_Annotations (Annotations t) rev_annotation \<noteq> currentDigest
           \<or> len_map (Data t) \<noteq> length (sync_Files (Sync (Spec obj)))"
    and "GetFiles env (ArtefactRegistry (Spec obj)) (OrasArtefact (Spec obj)) secretData
           = Returns content"
    and "Annotations t = None"
  shows "fst (Reconcile_update env w obj secretData currentDigest t) =
           Panics (errorString ''assignment to entry in nil map'')"
  using assms by (auto simp: Reconcile_update_def Let_def)

lemma Reconcile_update_sync:
  assumes nofault: "\<forall>n. faults w n = None"
    and stored: "secrets w (Namespace t, Name t) = Some t"
    and trigger: "index_Annotations (Annotations t) rev_annotation \<noteq> currentDigest
           \<or> len_map (Data t) \<noteq> length (sync_Files (Sync (Spec obj)))"
    and ann: "Annotations t = Some a"
    and files: "GetFiles env (ArtefactRegistry (Spec obj)) (OrasArtefact (Spec obj)) secretData
           = Returns content"
  shows "Reconcile_update env w obj secretData currentDigest t =
           (Returns (\<lparr>Requeue = False, RequeueAfter = 60 * Second\<rparr>, None),
            w\<lparr>secrets := (secrets w)((Namespace t, Name t) \<mapsto>
                   t\<lparr>Data := filter_Files (Files content) (sync_Files (Sync (Spec obj))),
                     Annotations := Some (AList.update rev_annotation (Digest content) a)\<rparr>),
              calls := calls w @
                 [CallGetFiles (ArtefactRegistry (Spec obj)) (OrasArtefact (Spec obj))
                    secretData,
                  UpdateSecret
                    (t\<lparr>Data := filter_Files (Files content) (sync_Files (Sync (Spec obj))),
                       Annotations :=
                         Some (AList.update rev_annotation (Digest content) a)\<rparr>)]\<rparr>)"
proof -
  let ?w1 = "called (CallGetFiles (ArtefactRegistry (Spec obj)) (OrasArtefact (Spec obj))
                       secretData) w"
  let ?t = "t\<lparr>Data := filter_Files (Files content) (sync_Files (Sync (Spec obj))),
              Annotations := Some (AList.update rev_annotation (Digest content) a)\<rparr>"
  have "fault ?w1 = None" using nofault by (simp add: fault_def called_simps)
  then have u: "Update_Secret ?w1 ?t =
      (None, called (UpdateSecret ?t) (?w1\<lparr>secrets := (secrets ?w1)((Namespace t, Name t) \<mapsto> ?t)\<rparr>))"
    using stored by (simp add: Update_Secret_def called_simps)
  have "Reconcile_update env w obj secretData currentDigest t =
      (Returns (\<lparr>Requeue = False, RequeueAfter = 60 * Second\<rparr>, None),
       called (UpdateSecret ?t) (?w1\<lparr>secrets := (secrets ?w1)((Namespace t, Name t) \<mapsto> ?t)\<rparr>))"
    using trigger ann files u by (auto simp: Reconcile_update_def Let_def)
  then show ?thesis by (simp add: called_def)
qed

text \<open>
  A whole pass without a fault, once the OCISecret is read, the credentials are
  resolved and the digest is fetched.
\<close>

lemma Reconcile_digest_panics:
  assumes nofault: "\<forall>n. faults w n = None"
    and obj: "ocisecrets w req = Some obj"
    and cred: "credential_resolves w obj secretData"
    and digest: "GetDigest env (ArtefactRegistry (Spec obj)) (OrasArtefact (Spec obj)) secretData
                   = Panics e"
  shows "Reconcile env w req =
           (Panics e,
            w\<lparr>calls := calls w @ [GetOCISecret req] @ pullsecret_calls obj @
                 [CallGetDigest (ArtefactRegistry (Spec obj)) (OrasArtefact (Spec obj))
                    secretData]\<rparr>)"
  by (simp add: Reconcile_to_target [OF nofault obj cred]
      Reconcile_target_digest_panics [OF digest])

lemma Reconcile_pass:
  assumes nofault: "\<forall>n. faults w n = None"
    and obj: "ocisecrets w req = Some obj"
    and cred: "credential_resolves w obj secretData"
    and digest: "GetDigest env (ArtefactRegistry (Spec obj)) (OrasArtefact (Spec obj)) secretData
                   = Returns currentDigest"
    and target: "secrets w (ref_Namespace (TargetSecret (Spec obj)),
                            ref_Name (TargetSecret (Spec obj))) = None
                   \<and> t = new_TargetSecret obj
                 \<or> secrets w (ref_Namespace (TargetSecret (Spec obj)),
                              ref_Name (TargetSecret (Spec obj))) = Some t"
  shows "Reconcile env w req =
           Reconcile_update env
             (w\<lparr>secrets := (secrets w)
                   ((ref_Namespace (TargetSecret (Spec obj)),
                     ref_Name (TargetSecret (Spec obj))) \<mapsto> t),
                calls := calls w @ [GetOCISecret req] @ pullsecret_calls obj @
                  [CallGetDigest (ArtefactRegistry (Spec obj)) (OrasArtefact (Spec obj))
                     secretData,
                   GetSecret (ref_Namespace (TargetSecret (Spec obj)),
                              ref_Name (TargetSecret (Spec obj)))] @
                  (if secrets w (ref_Namespace (TargetSecret (Spec obj)),
                                 ref_Name (TargetSecret (Spec obj))) = None
                   then [CreateSecret (new_TargetSecret obj)] else []) @
                  [GetSecret (ref_Namespace (TargetSecret (Spec obj)),
                              ref_Name (TargetSecret (Spec obj)))]\<rparr>)
             obj secretData currentDigest t"
proof -
  let ?wa = "w\<lparr>calls := calls w @ [GetOCISecret req] @ pullsecret_calls obj\<rparr>"
  have n: "\<forall>n. faults ?wa n = None" using nofault by simp
  have tg: "secrets ?wa (ref_Namespace (TargetSecret (Spec obj)),
                            ref_Name (TargetSecret (Spec obj))) = None
                   \<and> t = new_TargetSecret obj
                 \<or> secrets ?wa (ref_Namespace (TargetSecret (Spec obj)),
                              ref_Name (TargetSecret (Spec obj))) = Some t"
    using target by simp
  show ?thesis
    unfolding Reconcile_to_target [OF nofault obj cred]
      Reconcile_target_to_update [OF n digest tg]
    by simp
qed

lemma Reconcile_noop_pass:
  assumes nofault: "\<forall>n. faults w n = None"
    and obj: "ocisecrets w req = Some obj"
    and cred: "credential_resolves w obj secretData"
    and digest: "GetDigest env (ArtefactRegistry (Spec obj)) (OrasArtefact (Spec obj)) secretData
                   = Returns currentDigest"
    and target: "secrets w (ref_Namespace (TargetSecret (Spec obj)),
                            ref_Name (TargetSecret (Spec obj))) = Some t"
    and same: "index_Annotations (Annotations t) rev_annotation = currentDigest"
    and count: "len_map (Data t) = length (sync_Files (Sync (Spec obj)))"
  shows "Reconcile env w req =
           (Returns (\<lparr>Requeue = False, RequeueAfter = 60 * Second\<rparr>, None),
            w\<lparr>calls := calls w @ [GetOCISecret req] @ pullsecret_calls obj @
                 [CallGetDigest (ArtefactRegistry (Spec obj)) (OrasArtefact (Spec obj))
                    secretData,
                  GetSecret (ref_Namespace (TargetSecret (Spec obj)),
                             ref_Name (TargetSecret (Spec obj))),
                  GetSecret (ref_Namespace (TargetSecret (Spec obj)),
                             ref_Name (TargetSecret (Spec obj)))]\<rparr>)"
proof -
  let ?tgt = "(ref_Namespace (TargetSecret (Spec obj)), ref_Name (TargetSecret (Spec obj)))"
  have tg: "secrets w ?tgt = None \<and> t = new_TargetSecret obj \<or> secrets w ?tgt = Some t"
    using target by simp
  have idem: "(secrets w)(?tgt \<mapsto> t) = secrets w"
    using target by (auto simp: fun_upd_idem_iff)
  show ?thesis
    unfolding Reconcile_pass [OF nofault obj cred digest tg]
      Reconcile_update_noop [OF same count] idem
    using target by simp
qed

text \<open>
  The placeholder revision has no colon, so it is not of the form of a digest.
\<close>

lemma sentinel_not_digest: "digest_form d \<Longrightarrow> d \<noteq> ''00000''"
proof
  assume "digest_form d" and "d = ''00000''"
  then have "digest_form ''00000''" by simp
  then show False by (simp add: digest_form_def)
qed

section \<open>The claims about FilterMapInPlace\<close>

text \<open>
  Claim C3, as amended. \<^verbatim>\<open>FilterMapInPlace\<close> called with an empty list of allowed keys
  removes every key of the map: the set of allowed keys is empty, so the loop deletes
  each key it visits. That an empty list of files means no restriction is the work of
  the caller: in a pass of \<^verbatim>\<open>Reconcile\<close> without a fault whose OCISecret has an empty
  list of files and which updates the target Secret (the Secret \<open>t\<close> it read, or the
  new one when none was stored), the data that the pass stores and sends with
  \<^verbatim>\<open>Update\<close> is the map of files that \<^verbatim>\<open>GetFiles\<close> returned, unchanged.
\<close>

theorem filter_empty_allowList:
  "FilterMapInPlace m [] = []
   \<and> ((\<forall>n. faults w n = None)
       \<and> ocisecrets w req = Some OCIsecret
       \<and> sync_Files (Sync (Spec OCIsecret)) = []
       \<and> credential_resolves w OCIsecret secretData
       \<and> GetDigest env (ArtefactRegistry (Spec OCIsecret)) (OrasArtefact (Spec OCIsecret))
            secretData = Returns currentDigest
       \<and> (secrets w (ref_Namespace (TargetSecret (Spec OCIsecret)),
                      ref_Name (TargetSecret (Spec OCIsecret))) = None
            \<and> t = new_TargetSecret OCIsecret
          \<or> secrets w (ref_Namespace (TargetSecret (Spec OCIsecret)),
                        ref_Name (TargetSecret (Spec OCIsecret))) = Some t
            \<and> (Namespace t, Name t) = (ref_Namespace (TargetSecret (Spec OCIsecret)),
                                         ref_Name (TargetSecret (Spec OCIsecret))))
       \<and> (index_Annotations (Annotations t) rev_annotation \<noteq> currentDigest
          \<or> len_map (Data t) \<noteq> 0)
       \<and> Annotations t = Some a
       \<and> GetFiles env (ArtefactRegistry (Spec OCIsecret)) (OrasArtefact (Spec OCIsecret))
            secretData = Returns content
      \<longrightarrow>
       Reconcile env w req =
         (Returns (\<lparr>Requeue = False, RequeueAfter = 60 * Second\<rparr>, None),
          w\<lparr>secrets := (secrets w)
               ((ref_Namespace (TargetSecret (Spec OCIsecret)),
                 ref_Name (TargetSecret (Spec OCIsecret))) \<mapsto>
                t\<lparr>Data := Files content,
                  Annotations := Some (AList.update rev_annotation (Digest content) a)\<rparr>),
             calls := calls w @ [GetOCISecret req] @ pullsecret_calls OCIsecret @
               [CallGetDigest (ArtefactRegistry (Spec OCIsecret))
                  (OrasArtefact (Spec OCIsecret)) secretData,
                GetSecret (ref_Namespace (TargetSecret (Spec OCIsecret)),
                           ref_Name (TargetSecret (Spec OCIsecret)))] @
               (if secrets w (ref_Namespace (TargetSecret (Spec OCIsecret)),
                              ref_Name (TargetSecret (Spec OCIsecret))) = None
                then [CreateSecret (new_TargetSecret OCIsecret)] else []) @
               [GetSecret (ref_Namespace (TargetSecret (Spec OCIsecret)),
                           ref_Name (TargetSecret (Spec OCIsecret))),
                CallGetFiles (ArtefactRegistry (Spec OCIsecret))
                  (OrasArtefact (Spec OCIsecret)) secretData,
                UpdateSecret
                  (t\<lparr>Data := Files content,
                     Annotations :=
                       Some (AList.update rev_annotation (Digest content) a)\<rparr>)]\<rparr>))"
proof (intro conjI impI)
  have "map_of (FilterMapInPlace m []) = Map.empty"
    by (rule ext) (simp add: FilterMapInPlace_lookup)
  then show "FilterMapInPlace m [] = []"
    by (simp only: map_of_eq_empty_iff)
next
  let ?tgt = "(ref_Namespace (TargetSecret (Spec OCIsecret)),
               ref_Name (TargetSecret (Spec OCIsecret)))"
  let ?new = "new_TargetSecret OCIsecret"
  assume h: "(\<forall>n. faults w n = None)
       \<and> ocisecrets w req = Some OCIsecret
       \<and> sync_Files (Sync (Spec OCIsecret)) = []
       \<and> credential_resolves w OCIsecret secretData
       \<and> GetDigest env (ArtefactRegistry (Spec OCIsecret)) (OrasArtefact (Spec OCIsecret))
            secretData = Returns currentDigest
       \<and> (secrets w ?tgt = None \<and> t = ?new
          \<or> secrets w ?tgt = Some t \<and> (Namespace t, Name t) = ?tgt)
       \<and> (index_Annotations (Annotations t) rev_annotation \<noteq> currentDigest
          \<or> len_map (Data t) \<noteq> 0)
       \<and> Annotations t = Some a
       \<and> GetFiles env (ArtefactRegistry (Spec OCIsecret)) (OrasArtefact (Spec OCIsecret))
            secretData = Returns content"
  then have nofault: "\<forall>n. faults w n = None"
    and obj: "ocisecrets w req = Some OCIsecret"
    and empty: "sync_Files (Sync (Spec OCIsecret)) = []"
    and cred: "credential_resolves w OCIsecret secretData"
    and digest: "GetDigest env (ArtefactRegistry (Spec OCIsecret)) (OrasArtefact (Spec OCIsecret))
            secretData = Returns currentDigest"
    and target: "secrets w ?tgt = None \<and> t = ?new
          \<or> secrets w ?tgt = Some t \<and> (Namespace t, Name t) = ?tgt"
    and trig: "index_Annotations (Annotations t) rev_annotation \<noteq> currentDigest
          \<or> len_map (Data t) \<noteq> 0"
    and ann: "Annotations t = Some a"
    and files: "GetFiles env (ArtefactRegistry (Spec OCIsecret)) (OrasArtefact (Spec OCIsecret))
            secretData = Returns content"
    by blast+
  have tg: "secrets w ?tgt = None \<and> t = ?new \<or> secrets w ?tgt = Some t"
    using target by blast
  have key: "(Namespace t, Name t) = ?tgt"
    using target by (auto simp: new_TargetSecret_def)
  let ?W = "w\<lparr>secrets := (secrets w)(?tgt \<mapsto> t),
              calls := calls w @ [GetOCISecret req] @ pullsecret_calls OCIsecret @
                [CallGetDigest (ArtefactRegistry (Spec OCIsecret))
                   (OrasArtefact (Spec OCIsecret)) secretData, GetSecret ?tgt] @
                (if secrets w ?tgt = None then [CreateSecret ?new] else []) @
                [GetSecret ?tgt]\<rparr>"
  have n: "\<forall>n. faults ?W n = None" using nofault by simp
  have st: "secrets ?W (Namespace t, Name t) = Some t" using key by simp
  have trigger: "index_Annotations (Annotations t) rev_annotation \<noteq> currentDigest
      \<or> len_map (Data t) \<noteq> length (sync_Files (Sync (Spec OCIsecret)))"
    using trig empty by simp
  have keep: "filter_Files (Files content) (sync_Files (Sync (Spec OCIsecret))) = Files content"
    using empty by (simp add: filter_Files_def)
  show "Reconcile env w req =
         (Returns (\<lparr>Requeue = False, RequeueAfter = 60 * Second\<rparr>, None),
          w\<lparr>secrets := (secrets w)
               (?tgt \<mapsto>
                t\<lparr>Data := Files content,
                  Annotations := Some (AList.update rev_annotation (Digest content) a)\<rparr>),
             calls := calls w @ [GetOCISecret req] @ pullsecret_calls OCIsecret @
               [CallGetDigest (ArtefactRegistry (Spec OCIsecret))
                  (OrasArtefact (Spec OCIsecret)) secretData,
                GetSecret ?tgt] @
               (if secrets w ?tgt = None then [CreateSecret ?new] else []) @
               [GetSecret ?tgt,
                CallGetFiles (ArtefactRegistry (Spec OCIsecret))
                  (OrasArtefact (Spec OCIsecret)) secretData,
                UpdateSecret
                  (t\<lparr>Data := Files content,
                     Annotations :=
                       Some (AList.update rev_annotation (Digest content) a)\<rparr>)]\<rparr>)"
    unfolding Reconcile_pass [OF nofault obj cred digest tg]
      Reconcile_update_sync [OF n st trigger ann files] keep key
    by simp
qed

text \<open>
  The theorem of claim C3 at a pass with an empty list of files over a target Secret
  that holds an older revision: the two files of the artifact are stored as fetched.
\<close>

theorem filter_empty_allowList_witness:
  "Reconcile example_env
     (example_world (example_OCISecret ''v1'' [] example_anonymous)
        [example_Secret ''target'' (Some [(''OCISecret.operator.rev'', ''sha256:0000'')])
           [(''old.txt'', ''O'')]])
     ([], ''sync'') =
   (Returns (\<lparr>Requeue = False, RequeueAfter = 60 * Second\<rparr>, None),
    (example_world (example_OCISecret ''v1'' [] example_anonymous)
        [example_Secret ''target'' (Some [(''OCISecret.operator.rev'', ''sha256:0000'')])
           [(''old.txt'', ''O'')]])
      \<lparr>secrets :=
         [(''default'', ''target'') \<mapsto>
            example_Secret ''target'' (Some [(''OCISecret.operator.rev'', ''sha256:ab12'')])
              [(''a.txt'', ''A''), (''b.txt'', ''B'')]],
       calls :=
         [GetOCISecret ([], ''sync''),
          CallGetDigest ''registry.example/repo'' ''v1'' [],
          GetSecret (''default'', ''target''),
          GetSecret (''default'', ''target''),
          CallGetFiles ''registry.example/repo'' ''v1'' [],
          UpdateSecret
            (example_Secret ''target'' (Some [(''OCISecret.operator.rev'', ''sha256:ab12'')])
              [(''a.txt'', ''A''), (''b.txt'', ''B'')])]\<rparr>)"
proof -
  let ?obj = "example_OCISecret ''v1'' [] example_anonymous"
  let ?t = "example_Secret ''target'' (Some [(''OCISecret.operator.rev'', ''sha256:0000'')])
              [(''old.txt'', ''O'')]"
  let ?w = "example_world ?obj [?t]"
  let ?content = "\<lparr>Digest = ''sha256:ab12'', Files = [(''a.txt'', ''A''), (''b.txt'', ''B'')]\<rparr>"
  have r: "ArtefactRegistry (Spec ?obj) = ''registry.example/repo''"
          "OrasArtefact (Spec ?obj) = ''v1''"
          "(ref_Namespace (TargetSecret (Spec ?obj)), ref_Name (TargetSecret (Spec ?obj)))
             = (''default'', ''target'')"
    by (simp_all add: example_defs)
  have h: "(\<forall>n. faults ?w n = None)
       \<and> ocisecrets ?w ([], ''sync'') = Some ?obj
       \<and> sync_Files (Sync (Spec ?obj)) = []
       \<and> credential_resolves ?w ?obj []
       \<and> GetDigest example_env (ArtefactRegistry (Spec ?obj)) (OrasArtefact (Spec ?obj))
            [] = Returns ''sha256:ab12''
       \<and> (secrets ?w (ref_Namespace (TargetSecret (Spec ?obj)),
                      ref_Name (TargetSecret (Spec ?obj))) = None
            \<and> ?t = new_TargetSecret ?obj
          \<or> secrets ?w (ref_Namespace (TargetSecret (Spec ?obj)),
                        ref_Name (TargetSecret (Spec ?obj))) = Some ?t
            \<and> (Namespace ?t, Name ?t) = (ref_Namespace (TargetSecret (Spec ?obj)),
                                         ref_Name (TargetSecret (Spec ?obj))))
       \<and> (index_Annotations (Annotations ?t) rev_annotation \<noteq> ''sha256:ab12''
          \<or> len_map (Data ?t) \<noteq> 0)
       \<and> Annotations ?t = Some [(''OCISecret.operator.rev'', ''sha256:0000'')]
       \<and> GetFiles example_env (ArtefactRegistry (Spec ?obj)) (OrasArtefact (Spec ?obj))
            [] = Returns ?content"
    by (simp add: credential_resolves_def fetch_defs example_defs index_Annotations_def
        rev_annotation_def)
  have p: "pullsecret_calls ?obj = []"
    by (simp add: pullsecret_calls_def example_defs)
  have s: "secrets ?w (''default'', ''target'') = Some ?t" and c: "calls ?w = []"
    by (simp_all add: example_defs)
  have u: "?t\<lparr>Data := Files ?content,
             Annotations := Some (AList.update rev_annotation (Digest ?content)
                                    [(''OCISecret.operator.rev'', ''sha256:0000'')])\<rparr> =
           example_Secret ''target'' (Some [(''OCISecret.operator.rev'', ''sha256:ab12'')])
              [(''a.txt'', ''A''), (''b.txt'', ''B'')]"
    by (simp add: example_Secret_def rev_annotation_def)
  have m: "(secrets ?w)((''default'', ''target'') \<mapsto> x) = [(''default'', ''target'') \<mapsto> x]" for x
    by (simp add: example_defs)
  from filter_empty_allowList [THEN conjunct2, rule_format, OF h]
  show ?thesis
    unfolding r p u m by (simp add: s c)
qed

text \<open>
  Claim C3 as it is stated fails on \<^verbatim>\<open>FilterMapInPlace\<close>: with the files \<open>a.txt\<close> and
  \<open>b.txt\<close> and the empty list, the map is emptied, not left unchanged.
\<close>

theorem FilterMapInPlace_empty_allowList_counterexample:
  "FilterMapInPlace [(''a.txt'', ''A''), (''b.txt'', ''B'')] [] = []"
  by (simp add: FilterMapInPlace_def range_map_def)

text \<open>
  Claim C8. For every map \<open>m\<close> and every list of allowed keys that is not empty, the
  keys of the map after \<^verbatim>\<open>FilterMapInPlace\<close> are the keys of \<open>m\<close> that are in the list,
  and each key that is kept has the bytes it had in \<open>m\<close>.
\<close>

theorem FilterMapInPlace_nonempty_allowList:
  assumes "allowedKeys \<noteq> []"
  shows "dom (map_of (FilterMapInPlace m allowedKeys)) = dom (map_of m) \<inter> set allowedKeys
       \<and> (\<forall>key \<in> dom (map_of (FilterMapInPlace m allowedKeys)).
             map_of (FilterMapInPlace m allowedKeys) key = map_of m key)"
  by (auto simp: FilterMapInPlace_lookup dom_def split: if_splits)

text \<open>
  The theorem of claim C8 at the files \<open>a.txt\<close>, \<open>b.txt\<close> and the list \<open>a.txt\<close>, \<open>c.txt\<close>.
\<close>

theorem FilterMapInPlace_nonempty_allowList_witness:
  "[''a.txt'', ''c.txt''] \<noteq> []
   \<and> dom (map_of (FilterMapInPlace [(''a.txt'', ''A''), (''b.txt'', ''B'')] [''a.txt'', ''c.txt'']))
       = {''a.txt''}
   \<and> map_of (FilterMapInPlace [(''a.txt'', ''A''), (''b.txt'', ''B'')] [''a.txt'', ''c.txt''])
       ''a.txt'' = Some ''A''"
  using FilterMapInPlace_nonempty_allowList
    [of "[''a.txt'', ''c.txt'']" "[(''a.txt'', ''A''), (''b.txt'', ''B'')]"]
  by (simp add: FilterMapInPlace_def range_map_def)

section \<open>The claims about the registry client\<close>

text \<open>
  Claim C2, as amended. \<^verbatim>\<open>CreateClient\<close>, \<^verbatim>\<open>GetDigest\<close> and \<^verbatim>\<open>GetFiles\<close> have no error
  result: each returns its value or panics, and it panics exactly when one of the
  library calls it makes gives an error (a malformed registry address, malformed
  credentials, a failed fetch or copy, a failed temporary directory or file store),
  with that error as the value of the panic. \<^verbatim>\<open>Reconcile\<close> does not recover: in a pass
  without a fault of the cluster that has read the OCISecret and resolved the
  credentials, when the digest fetch panics the pass panics with the same error,
  having made no call after it; and when the digest is fetched, the target needs an
  update and the content fetch panics, the pass panics with the same error.
\<close>

theorem core_operations_panic:
  "(CreateClient env registry creds = Panics e \<longleftrightarrow>
      remote_NewRepository env registry = Inl e \<or>
      (\<exists>repo. remote_NewRepository env registry = Inr repo \<and> creds \<noteq> [] \<and>
         credentials_NewMemoryStoreFromDockerConfig env creds = Inl e))
   \<and> (GetDigest env registry tag creds = Panics e \<longleftrightarrow>
      CreateClient env registry creds = Panics e \<or>
      (\<exists>repo. CreateClient env registry creds = Returns repo \<and>
         oras_Fetch env repo tag = Inl e))
   \<and> (GetFiles env registry tag creds = Panics e \<longleftrightarrow>
      os_MkdirTemp env ''/tmp'' ''oras'' = Inl e \<or>
      (\<exists>tmpdir. os_MkdirTemp env ''/tmp'' ''oras'' = Inr tmpdir \<and>
         (file_New env tmpdir = Inl e \<or>
          (\<exists>fs. file_New env tmpdir = Inr fs \<and>
             (CreateClient env registry creds = Panics e \<or>
              (\<exists>repo. CreateClient env registry creds = Returns repo \<and>
                 oras_Copy env repo tag fs tag = Inl e))))))
   \<and> ((\<forall>n. faults w n = None)
       \<and> ocisecrets w req = Some OCIsecret
       \<and> credential_resolves w OCIsecret secretData
       \<and> GetDigest env (ArtefactRegistry (Spec OCIsecret)) (OrasArtefact (Spec OCIsecret))
            secretData = Panics e
      \<longrightarrow>
       Reconcile env w req =
         (Panics e,
          w\<lparr>calls := calls w @ [GetOCISecret req] @ pullsecret_calls OCIsecret @
               [CallGetDigest (ArtefactRegistry (Spec OCIsecret))
                  (OrasArtefact (Spec OCIsecret)) secretData]\<rparr>))
   \<and> ((\<forall>n. faults w n = None)
       \<and> ocisecrets w req = Some OCIsecret
       \<and> credential_resolves w OCIsecret secretData
       \<and> GetDigest env (ArtefactRegistry (Spec OCIsecret)) (OrasArtefact (Spec OCIsecret))
            secretData = Returns currentDigest
       \<and> (secrets w (ref_Namespace (TargetSecret (Spec OCIsecret)),
                      ref_Name (TargetSecret (Spec OCIsecret))) = None
            \<and> t = new_TargetSecret OCIsecret
          \<or> secrets w (ref_Namespace (TargetSecret (Spec OCIsecret)),
                        ref_Name (TargetSecret (Spec OCIsecret))) = Some t)
       \<and> (index_Annotations (Annotations t) rev_annotation \<noteq> currentDigest
          \<or> len_map (Data t) \<noteq> length (sync_Files (Sync (Spec OCIsecret))))
       \<and> GetFiles env (ArtefactRegistry (Spec OCIsecret)) (OrasArtefact (Spec OCIsecret))
            secretData = Panics e
      \<longrightarrow> fst (Reconcile env w req) = Panics e)"
proof (intro conjI impI)
  show "CreateClient env registry creds = Panics e \<longleftrightarrow>
      remote_NewRepository env registry = Inl e \<or>
      (\<exists>repo. remote_NewRepository env registry = Inr repo \<and> creds \<noteq> [] \<and>
         credentials_NewMemoryStoreFromDockerConfig env creds = Inl e)"
    by (auto simp: CreateClient_def split: sum.splits)
  show "GetDigest env registry tag creds = Panics e \<longleftrightarrow>
      CreateClient env registry creds = Panics e \<or>
      (\<exists>repo. CreateClient env registry creds = Returns repo \<and>
         oras_Fetch env repo tag = Inl e)"
    by (auto simp: GetDigest_def split: sum.splits outcome.splits)
  show "GetFiles env registry tag creds = Panics e \<longleftrightarrow>
      os_MkdirTemp env ''/tmp'' ''oras'' = Inl e \<or>
      (\<exists>tmpdir. os_MkdirTemp env ''/tmp'' ''oras'' = Inr tmpdir \<and>
         (file_New env tmpdir = Inl e \<or>
          (\<exists>fs. file_New env tmpdir = Inr fs \<and>
             (CreateClient env registry creds = Panics e \<or>
              (\<exists>repo. CreateClient env registry creds = Returns repo \<and>
                 oras_Copy env repo tag fs tag = Inl e)))))"
    by (auto simp: GetFiles_def Let_def split: sum.splits outcome.splits)
next
  assume "(\<forall>n. faults w n = None)
       \<and> ocisecrets w req = Some OCIsecret
       \<and> credential_resolves w OCIsecret secretData
       \<and> GetDigest env (ArtefactRegistry (Spec OCIsecret)) (OrasArtefact (Spec OCIsecret))
            secretData = Panics e"
  then show "Reconcile env w req =
         (Panics e,
          w\<lparr>calls := calls w @ [GetOCISecret req] @ pullsecret_calls OCIsecret @
               [CallGetDigest (ArtefactRegistry (Spec OCIsecret))
                  (OrasArtefact (Spec OCIsecret)) secretData]\<rparr>)"
    by (intro Reconcile_digest_panics) blast+
next
  let ?tgt = "(ref_Namespace (TargetSecret (Spec OCIsecret)),
               ref_Name (TargetSecret (Spec OCIsecret)))"
  assume h: "(\<forall>n. faults w n = None)
       \<and> ocisecrets w req = Some OCIsecret
       \<and> credential_resolves w OCIsecret secretData
       \<and> GetDigest env (ArtefactRegistry (Spec OCIsecret)) (OrasArtefact (Spec OCIsecret))
            secretData = Returns currentDigest
       \<and> (secrets w ?tgt = None \<and> t = new_TargetSecret OCIsecret \<or> secrets w ?tgt = Some t)
       \<and> (index_Annotations (Annotations t) rev_annotation \<noteq> currentDigest
          \<or> len_map (Data t) \<noteq> length (sync_Files (Sync (Spec OCIsecret))))
       \<and> GetFiles env (ArtefactRegistry (Spec OCIsecret)) (OrasArtefact (Spec OCIsecret))
            secretData = Panics e"
  then have nofault: "\<forall>n. faults w n = None"
    and obj: "ocisecrets w req = Some OCIsecret"
    and cred: "credential_resolves w OCIsecret secretData"
    and digest: "GetDigest env (ArtefactRegistry (Spec OCIsecret)) (OrasArtefact (Spec OCIsecret))
            secretData = Returns currentDigest"
    and tg: "secrets w ?tgt = None \<and> t = new_TargetSecret OCIsecret \<or> secrets w ?tgt = Some t"
    and trigger: "index_Annotations (Annotations t) rev_annotation \<noteq> currentDigest
          \<or> len_map (Data t) \<noteq> length (sync_Files (Sync (Spec OCIsecret)))"
    and files: "GetFiles env (ArtefactRegistry (Spec OCIsecret)) (OrasArtefact (Spec OCIsecret))
            secretData = Panics e"
    by blast+
  show "fst (Reconcile env w req) = Panics e"
    unfolding Reconcile_pass [OF nofault obj cred digest tg]
      Reconcile_update_fetch_panics [OF trigger files]
    by simp
qed

text \<open>
  The theorem of claim C2 at the example registry: a pass for the tag \<open>v2\<close>, which the
  registry does not have, and a pass when no temporary directory can be made.
\<close>

theorem core_operations_panic_witness:
  "Reconcile example_env
     (example_world (example_OCISecret ''v2'' [] example_anonymous) []) ([], ''sync'') =
     (Panics (errorString ''not found''),
      (example_world (example_OCISecret ''v2'' [] example_anonymous) [])
        \<lparr>calls := [GetOCISecret ([], ''sync''),
                   CallGetDigest ''registry.example/repo'' ''v2'' []]\<rparr>)
   \<and> fst (Reconcile example_env_no_tmp
            (example_world (example_OCISecret ''v1'' [] example_anonymous) []) ([], ''sync''))
      = Panics (errorString ''no space left on device'')"
proof -
  let ?o2 = "example_OCISecret ''v2'' [] example_anonymous"
  let ?w2 = "example_world ?o2 []"
  let ?o1 = "example_OCISecret ''v1'' [] example_anonymous"
  let ?w1 = "example_world ?o1 []"
  have a: "(\<forall>n. faults ?w2 n = None)
       \<and> ocisecrets ?w2 ([], ''sync'') = Some ?o2
       \<and> credential_resolves ?w2 ?o2 []
       \<and> GetDigest example_env (ArtefactRegistry (Spec ?o2)) (OrasArtefact (Spec ?o2)) []
           = Panics (errorString ''not found'')"
    by (simp add: credential_resolves_def fetch_defs example_defs)
  have b: "(\<forall>n. faults ?w1 n = None)
       \<and> ocisecrets ?w1 ([], ''sync'') = Some ?o1
       \<and> credential_resolves ?w1 ?o1 []
       \<and> GetDigest example_env_no_tmp (ArtefactRegistry (Spec ?o1)) (OrasArtefact (Spec ?o1)) []
           = Returns ''sha256:ab12''
       \<and> (secrets ?w1 (ref_Namespace (TargetSecret (Spec ?o1)),
                       ref_Name (TargetSecret (Spec ?o1))) = None
            \<and> new_TargetSecret ?o1 = new_TargetSecret ?o1
          \<or> secrets ?w1 (ref_Namespace (TargetSecret (Spec ?o1)),
                       ref_Name (TargetSecret (Spec ?o1))) = Some (new_TargetSecret ?o1))
       \<and> (index_Annotations (Annotations (new_TargetSecret ?o1)) rev_annotation
             \<noteq> ''sha256:ab12''
          \<or> len_map (Data (new_TargetSecret ?o1)) \<noteq> length (sync_Files (Sync (Spec ?o1))))
       \<and> GetFiles example_env_no_tmp (ArtefactRegistry (Spec ?o1)) (OrasArtefact (Spec ?o1)) []
           = Panics (errorString ''no space left on device'')"
    by (simp add: credential_resolves_def fetch_defs example_defs new_TargetSecret_def
        index_Annotations_def rev_annotation_def)
  note t = core_operations_panic [THEN conjunct2, THEN conjunct2, THEN conjunct2]
  have p: "pullsecret_calls ?o2 = []" "calls ?w2 = []"
    "ArtefactRegistry (Spec ?o2) = ''registry.example/repo''" "OrasArtefact (Spec ?o2) = ''v2''"
    by (simp_all add: pullsecret_calls_def example_defs)
  from t [THEN conjunct1, rule_format, OF a] t [THEN conjunct2, rule_format, OF b]
  show ?thesis
    unfolding p by simp
qed

text \<open>
  Claim C2 as it is stated fails: on a registry address without a repository, on
  credentials that do not decode, and on a tag that is not found, the operations
  panic instead of giving an error value to the caller, and so does the whole pass.
\<close>

theorem core_operations_counterexample:
  "CreateClient example_env ''localhost'' [] =
     Panics (errorString ''invalid reference: missing registry or repository'')
   \<and> CreateClient example_env ''registry.example/repo'' ''secret'' =
     Panics (errorString ''failed to decode config'')
   \<and> GetDigest example_env ''registry.example/repo'' ''v2'' [] = Panics (errorString ''not found'')
   \<and> GetFiles example_env ''registry.example/repo'' ''v2'' [] = Panics (errorString ''not found'')
   \<and> fst (Reconcile example_env
             (example_world (example_OCISecret ''v2'' [] example_anonymous) []) ([], ''sync''))
       = Panics (errorString ''not found'')"
  by (simp add: pass_defs fetch_defs example_defs)

text \<open>
  Claim C7, at an input where the code departs from it. The copy succeeds and the
  temporary directory cannot be read: \<^verbatim>\<open>GetFilesContentBinary\<close> returns an error with
  the cause, and \<^verbatim>\<open>GetFiles\<close>, which does not look at that error, returns a Filemap
  with the digest of the manifest and no files, as if the artifact were empty.
\<close>

theorem GetFiles_unreadable_directory:
  "GetFilesContentBinary example_env_unreadable ''/tmp/oras1'' =
     Inl (errorString ''fehler beim Lesen des Verzeichnisses: permission denied'')
   \<and> GetFiles example_env_unreadable ''registry.example/repo'' ''v1'' [] =
     Returns \<lparr>Digest = ''sha256:ab12'', Files = []\<rparr>"
  by (simp add: fetch_defs example_defs)

section \<open>The claims about the reconciler\<close>

subsection \<open>The pull secret\<close>

text \<open>
  Claim C5, as amended. When the pull secret reference is set, the pull secret is
  read, and its data has no key \<open>.dockerconfigjson\<close>, the pass ends right there: it has
  made the two reads and nothing else (no call to the registry, no write), the
  objects of the cluster are as they were, and it returns the empty result with a
  nil error: the condition is logged, it is not reported to the caller as an error,
  and no next check is scheduled.
\<close>

theorem pullsecret_without_dockerconfigjson:
  assumes "ocisecrets w req = Some OCIsecret"
    and "faults w (length (calls w)) = None"
    and "faults w (Suc (length (calls w))) = None"
    and "ref_Name (ArtefactPullSecret (Spec OCIsecret)) \<noteq> []"
    and "ref_Namespace (ArtefactPullSecret (Spec OCIsecret)) \<noteq> []"
    and "secrets w (ref_Namespace (ArtefactPullSecret (Spec OCIsecret)),
                    ref_Name (ArtefactPullSecret (Spec OCIsecret))) = Some OCIPullSecret"
    and "map_of (Data OCIPullSecret) ''.dockerconfigjson'' = None"
  shows "Reconcile env w req =
           (Returns (Result_empty, None),
            w\<lparr>calls := calls w @
                 [GetOCISecret req,
                  GetSecret (ref_Namespace (ArtefactPullSecret (Spec OCIsecret)),
                             ref_Name (ArtefactPullSecret (Spec OCIsecret)))]\<rparr>)"
  using assms
  by (simp add: Reconcile_def Reconcile_pullsecret_def Get_OCISecret_def Get_Secret_def
      fault_def called_def secretData_lookup)

text \<open>
  The theorem of claim C5 at a pull secret that only has a key \<open>username\<close>.
\<close>

theorem pullsecret_without_dockerconfigjson_witness:
  "Reconcile example_env
     (example_world (example_OCISecret ''v1'' [] example_pull)
        [example_Secret ''pull'' None [(''username'', ''u'')],
         example_Secret ''target'' (Some [(''OCISecret.operator.rev'', ''00000'')]) []])
     ([], ''sync'') =
   (Returns (Result_empty, None),
    (example_world (example_OCISecret ''v1'' [] example_pull)
        [example_Secret ''pull'' None [(''username'', ''u'')],
         example_Secret ''target'' (Some [(''OCISecret.operator.rev'', ''00000'')]) []])
      \<lparr>calls := [GetOCISecret ([], ''sync''), GetSecret (''default'', ''pull'')]\<rparr>)"
  using pullsecret_without_dockerconfigjson
    [of "example_world (example_OCISecret ''v1'' [] example_pull)
        [example_Secret ''pull'' None [(''username'', ''u'')],
         example_Secret ''target'' (Some [(''OCISecret.operator.rev'', ''00000'')]) []]"
        "([], ''sync'')" "example_OCISecret ''v1'' [] example_pull"
        "example_Secret ''pull'' None [(''username'', ''u'')]" example_env]
  by (simp add: example_defs)

text \<open>
  Claim C5 as it is stated fails: with a pull secret that lacks the key, the error
  that the pass returns is nil.
\<close>

theorem missing_credential_key_counterexample:
  "fst (Reconcile example_env
     (example_world (example_OCISecret ''v1'' [] example_pull)
        [example_Secret ''pull'' None [(''username'', ''u'')]])
     ([], ''sync'')) = Returns (\<lparr>Requeue = False, RequeueAfter = 0\<rparr>, None)"
  by (simp add: pass_defs example_defs)



subsection \<open>The revisit delay\<close>

text \<open>
  Claim C6, as amended. A pass that returns a nil error returns the delay of 60
  seconds, whether or not it updated the target, except on its two early returns with
  a nil error, where the result is empty (no delay, no requeue): when the OCISecret is
  not found, and when the pull secret gives no data under \<open>.dockerconfigjson\<close>.
\<close>

theorem requeue_delay:
  assumes "fst (Reconcile env w req) = Returns (res, None)"
  shows "res = (if OCISecret_not_found w req \<or> no_pullsecret_data w req
                then Result_empty
                else \<lparr>Requeue = False, RequeueAfter = 60 * Second\<rparr>)"
proof (cases "Get_OCISecret w req")
  case (Pair r w1)
  show ?thesis
  proof (cases r)
    case (Inl err)
    with Pair assms show ?thesis
      by (auto simp: Reconcile_def OCISecret_not_found_def split: if_splits)
  next
    case (Inr obj)
    with Pair have nf: "\<not> OCISecret_not_found w req"
      by (simp add: OCISecret_not_found_def)
    from Pair Inr assms have p: "fst (Reconcile_pullsecret env w1 obj) = Returns (res, None)"
      by (simp add: Reconcile_def)
    show ?thesis
    proof (cases "ref_Name (ArtefactPullSecret (Spec obj)) = []
                  \<or> ref_Namespace (ArtefactPullSecret (Spec obj)) = []")
      case True
      with Pair Inr have "\<not> no_pullsecret_data w req"
        by (auto simp: no_pullsecret_data_def)
      moreover from True p have "res = \<lparr>Requeue = False, RequeueAfter = 60 * Second\<rparr>"
        by (auto simp: Reconcile_pullsecret_def dest: Reconcile_target_delay)
      ultimately show ?thesis using nf by simp
    next
      case False
      with Pair Inr p nf show ?thesis
        by (auto simp: Reconcile_pullsecret_def no_pullsecret_data_def secretData_lookup Let_def
            dest: Reconcile_target_delay split: prod.splits sum.splits option.splits if_splits)
    qed
  qed
qed

text \<open>
  The theorem of claim C6 at the first pass of the example cluster.
\<close>

theorem requeue_delay_witness:
  "fst (Reconcile example_env
          (example_world (example_OCISecret ''v1'' [] example_anonymous) []) ([], ''sync''))
     = Returns (\<lparr>Requeue = False, RequeueAfter = 60 * Second\<rparr>, None)
   \<and> \<not> OCISecret_not_found
          (example_world (example_OCISecret ''v1'' [] example_anonymous) []) ([], ''sync'')
   \<and> \<not> no_pullsecret_data
          (example_world (example_OCISecret ''v1'' [] example_anonymous) []) ([], ''sync'')"
proof -
  let ?w = "example_world (example_OCISecret ''v1'' [] example_anonymous) []"
  have r: "fst (Reconcile example_env ?w ([], ''sync''))
     = Returns (\<lparr>Requeue = False, RequeueAfter = 60 * Second\<rparr>, None)"
    by (simp add: pass_defs fetch_defs example_defs)
  have z: "\<lparr>Requeue = False, RequeueAfter = 60 * Second\<rparr> \<noteq> Result_empty"
    by (simp add: Result_empty_def Second_def)
  have "\<not> (OCISecret_not_found ?w ([], ''sync'') \<or> no_pullsecret_data ?w ([], ''sync''))"
    using requeue_delay [OF r] z by presburger
  with r show ?thesis by blast
qed

text \<open>
  Claim C6 as it is stated fails: when the OCISecret is not found the pass returns a
  nil error and no delay.
\<close>

theorem requeue_delay_counterexample:
  "fst (Reconcile example_env
          ((example_world (example_OCISecret ''v1'' [] example_anonymous) [])
             \<lparr>ocisecrets := Map.empty\<rparr>) ([], ''sync''))
     = Returns (\<lparr>Requeue = False, RequeueAfter = 0\<rparr>, None)
   \<and> (0 :: 64 word) \<noteq> 60 * Second"
  by (simp add: pass_defs example_defs Second_def)

subsection \<open>The check whether the target needs an update\<close>

text \<open>
  Claim C1, at an input where the code departs from it. The list of files is empty,
  the target Secret holds the two files of the artifact, and its annotation is the
  digest that the registry reports. The pass fetches the files and updates the
  Secret all the same: line 200 compares the number of entries with the length of
  the list, 2 with 0, also when the list is empty.
\<close>

theorem Reconcile_resyncs_with_empty_file_list:
  "sync_Files (Sync (Spec (example_OCISecret ''v1'' [] example_anonymous))) = []
   \<and> GetDigest example_env ''registry.example/repo'' ''v1'' [] = Returns ''sha256:ab12''
   \<and> index_Annotations
        (Annotations (example_Secret ''target'' (Some [(''OCISecret.operator.rev'', ''sha256:ab12'')])
                        [(''a.txt'', ''A''), (''b.txt'', ''B'')]))
        rev_annotation = ''sha256:ab12''
   \<and> calls (snd (Reconcile example_env
        (example_world (example_OCISecret ''v1'' [] example_anonymous)
           [example_Secret ''target'' (Some [(''OCISecret.operator.rev'', ''sha256:ab12'')])
              [(''a.txt'', ''A''), (''b.txt'', ''B'')]])
        ([], ''sync''))) =
     [GetOCISecret ([], ''sync''),
      CallGetDigest ''registry.example/repo'' ''v1'' [],
      GetSecret (''default'', ''target''),
      GetSecret (''default'', ''target''),
      CallGetFiles ''registry.example/repo'' ''v1'' [],
      UpdateSecret (example_Secret ''target'' (Some [(''OCISecret.operator.rev'', ''sha256:ab12'')])
              [(''a.txt'', ''A''), (''b.txt'', ''B'')])]"
  by (simp add: pass_defs fetch_defs example_defs)

subsection \<open>The first pass\<close>

text \<open>
  Claim C9. In the first pass for an OCISecret whose target Secret is absent, when
  no call to the cluster fails, the credentials resolve, the digest fetch returns a
  digest of the form \<open><algorithm>:<hex>\<close> and the content fetch returns: the Secret that
  the pass creates has the placeholder \<open>00000\<close> as its revision annotation, which is
  not the digest, and one owner reference, to the OCISecret (its API version, kind,
  name and UID, as controller); after the creation the pass reads the target again,
  then fetches the content and updates the target, which in the end holds the
  fetched files (filtered by the list of files) and the digest of the fetched
  content as its revision; the pass returns the delay of 60 seconds and a nil error.
\<close>

theorem first_pass_creates_and_syncs:
  assumes nofault: "\<forall>n. faults w n = None"
    and obj: "ocisecrets w req = Some OCIsecret"
    and cred: "credential_resolves w OCIsecret secretData"
    and digest: "GetDigest env (ArtefactRegistry (Spec OCIsecret)) (OrasArtefact (Spec OCIsecret))
                   secretData = Returns currentDigest"
    and form: "digest_form currentDigest"
    and absent: "secrets w (ref_Namespace (TargetSecret (Spec OCIsecret)),
                            ref_Name (TargetSecret (Spec OCIsecret))) = None"
    and files: "GetFiles env (ArtefactRegistry (Spec OCIsecret)) (OrasArtefact (Spec OCIsecret))
                  secretData = Returns content"
  shows "Annotations (new_TargetSecret OCIsecret) = Some [(rev_annotation, ''00000'')]
       \<and> (\<forall>d. digest_form d \<longrightarrow>
              index_Annotations (Annotations (new_TargetSecret OCIsecret)) rev_annotation \<noteq> d)
       \<and> OwnerReferences (new_TargetSecret OCIsecret) =
           [\<lparr>owner_APIVersion = APIVersion OCIsecret, owner_Kind = Kind OCIsecret,
             owner_Name = Name OCIsecret, owner_UID = UID OCIsecret,
             Controller = Some True, BlockOwnerDeletion = Some True\<rparr>]
       \<and> Reconcile env w req =
           (Returns (\<lparr>Requeue = False, RequeueAfter = 60 * Second\<rparr>, None),
            w\<lparr>secrets := (secrets w)
                 ((ref_Namespace (TargetSecret (Spec OCIsecret)),
                   ref_Name (TargetSecret (Spec OCIsecret))) \<mapsto>
                  (new_TargetSecret OCIsecret)
                    \<lparr>Data := filter_Files (Files content) (sync_Files (Sync (Spec OCIsecret))),
                     Annotations := Some [(rev_annotation, Digest content)]\<rparr>),
              calls := calls w @ [GetOCISecret req] @ pullsecret_calls OCIsecret @
                [CallGetDigest (ArtefactRegistry (Spec OCIsecret))
                   (OrasArtefact (Spec OCIsecret)) secretData,
                 GetSecret (ref_Namespace (TargetSecret (Spec OCIsecret)),
                            ref_Name (TargetSecret (Spec OCIsecret))),
                 CreateSecret (new_TargetSecret OCIsecret),
                 GetSecret (ref_Namespace (TargetSecret (Spec OCIsecret)),
                            ref_Name (TargetSecret (Spec OCIsecret))),
                 CallGetFiles (ArtefactRegistry (Spec OCIsecret))
                   (OrasArtefact (Spec OCIsecret)) secretData,
                 UpdateSecret
                   ((new_TargetSecret OCIsecret)
                      \<lparr>Data := filter_Files (Files content)
                                 (sync_Files (Sync (Spec OCIsecret))),
                       Annotations := Some [(rev_annotation, Digest content)]\<rparr>)]\<rparr>)"
proof (intro conjI)
  let ?tgt = "(ref_Namespace (TargetSecret (Spec OCIsecret)),
               ref_Name (TargetSecret (Spec OCIsecret)))"
  let ?new = "new_TargetSecret OCIsecret"
  show ann: "Annotations ?new = Some [(rev_annotation, ''00000'')]"
    by (simp add: new_TargetSecret_def rev_annotation_def)
  show never: "\<forall>d. digest_form d \<longrightarrow>
      index_Annotations (Annotations ?new) rev_annotation \<noteq> d"
    using sentinel_not_digest
    by (auto simp: new_TargetSecret_def rev_annotation_def index_Annotations_def)
  from never form
  have sentinel: "index_Annotations (Annotations ?new) rev_annotation \<noteq> currentDigest"
    by blast
  show "OwnerReferences ?new =
           [\<lparr>owner_APIVersion = APIVersion OCIsecret, owner_Kind = Kind OCIsecret,
             owner_Name = Name OCIsecret, owner_UID = UID OCIsecret,
             Controller = Some True, BlockOwnerDeletion = Some True\<rparr>]"
    by (simp add: new_TargetSecret_def)
  have key: "(Namespace ?new, Name ?new) = ?tgt"
    by (simp add: new_TargetSecret_def)
  have tg: "secrets w ?tgt = None \<and> ?new = new_TargetSecret OCIsecret
            \<or> secrets w ?tgt = Some ?new"
    using absent by simp
  let ?W = "w\<lparr>secrets := (secrets w)(?tgt \<mapsto> ?new),
              calls := calls w @ [GetOCISecret req] @ pullsecret_calls OCIsecret @
                [CallGetDigest (ArtefactRegistry (Spec OCIsecret))
                   (OrasArtefact (Spec OCIsecret)) secretData, GetSecret ?tgt] @
                (if secrets w ?tgt = None then [CreateSecret ?new] else []) @
                [GetSecret ?tgt]\<rparr>"
  have n: "\<forall>n. faults ?W n = None" using nofault by simp
  have st: "secrets ?W (Namespace ?new, Name ?new) = Some ?new" using key by simp
  have trigger: "index_Annotations (Annotations ?new) rev_annotation \<noteq> currentDigest
      \<or> len_map (Data ?new) \<noteq> length (sync_Files (Sync (Spec OCIsecret)))"
    using sentinel by simp
  have up: "AList.update rev_annotation (Digest content) [(rev_annotation, ''00000'')] =
      [(rev_annotation, Digest content)]"
    by simp
  show "Reconcile env w req =
           (Returns (\<lparr>Requeue = False, RequeueAfter = 60 * Second\<rparr>, None),
            w\<lparr>secrets := (secrets w)
                 (?tgt \<mapsto>
                  ?new
                    \<lparr>Data := filter_Files (Files content) (sync_Files (Sync (Spec OCIsecret))),
                     Annotations := Some [(rev_annotation, Digest content)]\<rparr>),
              calls := calls w @ [GetOCISecret req] @ pullsecret_calls OCIsecret @
                [CallGetDigest (ArtefactRegistry (Spec OCIsecret))
                   (OrasArtefact (Spec OCIsecret)) secretData,
                 GetSecret ?tgt,
                 CreateSecret ?new,
                 GetSecret ?tgt,
                 CallGetFiles (ArtefactRegistry (Spec OCIsecret))
                   (OrasArtefact (Spec OCIsecret)) secretData,
                 UpdateSecret
                   (?new
                      \<lparr>Data := filter_Files (Files content)
                                 (sync_Files (Sync (Spec OCIsecret))),
                       Annotations := Some [(rev_annotation, Digest content)]\<rparr>)]\<rparr>)"
    unfolding Reconcile_pass [OF nofault obj cred digest tg]
      Reconcile_update_sync [OF n st trigger ann files] up key
    using absent by simp
qed

text \<open>
  The theorem of claim C9 at the example cluster with a pull secret and the list of
  files \<open>a.txt\<close>.
\<close>

theorem first_pass_creates_and_syncs_witness:
  "Reconcile example_env
     (example_world (example_OCISecret ''v1'' [''a.txt''] example_pull)
        [example_Secret ''pull'' None [(''.dockerconfigjson'', ''{auth}'')]])
     ([], ''sync'') =
   (Returns (\<lparr>Requeue = False, RequeueAfter = 60 * Second\<rparr>, None),
    (example_world (example_OCISecret ''v1'' [''a.txt''] example_pull)
        [example_Secret ''pull'' None [(''.dockerconfigjson'', ''{auth}'')]])
      \<lparr>secrets :=
         [(''default'', ''pull'') \<mapsto>
            example_Secret ''pull'' None [(''.dockerconfigjson'', ''{auth}'')],
          (''default'', ''target'') \<mapsto>
            (new_TargetSecret (example_OCISecret ''v1'' [''a.txt''] example_pull))
              \<lparr>Data := [(''a.txt'', ''A'')],
               Annotations := Some [(''OCISecret.operator.rev'', ''sha256:ab12'')]\<rparr>],
       calls :=
         [GetOCISecret ([], ''sync''),
          GetSecret (''default'', ''pull''),
          CallGetDigest ''registry.example/repo'' ''v1'' ''{auth}'',
          GetSecret (''default'', ''target''),
          CreateSecret (new_TargetSecret (example_OCISecret ''v1'' [''a.txt''] example_pull)),
          GetSecret (''default'', ''target''),
          CallGetFiles ''registry.example/repo'' ''v1'' ''{auth}'',
          UpdateSecret
            ((new_TargetSecret (example_OCISecret ''v1'' [''a.txt''] example_pull))
               \<lparr>Data := [(''a.txt'', ''A'')],
                Annotations := Some [(''OCISecret.operator.rev'', ''sha256:ab12'')]\<rparr>)]\<rparr>)"
proof -
  let ?obj = "example_OCISecret ''v1'' [''a.txt''] example_pull"
  let ?w = "example_world ?obj [example_Secret ''pull'' None [(''.dockerconfigjson'', ''{auth}'')]]"
  have h1: "\<forall>n. faults ?w n = None" by (simp add: example_defs)
  have h2: "ocisecrets ?w ([], ''sync'') = Some ?obj" by (simp add: example_defs)
  have h3: "credential_resolves ?w ?obj ''{auth}''"
    by (simp add: credential_resolves_def example_defs)
  have h4: "GetDigest example_env (ArtefactRegistry (Spec ?obj)) (OrasArtefact (Spec ?obj))
              ''{auth}'' = Returns ''sha256:ab12''"
    by (simp add: fetch_defs example_defs)
  have h5: "digest_form ''sha256:ab12''" by (simp add: digest_form_def)
  have h6: "secrets ?w (ref_Namespace (TargetSecret (Spec ?obj)),
                        ref_Name (TargetSecret (Spec ?obj))) = None"
    by (simp add: example_defs)
  have h7: "GetFiles example_env (ArtefactRegistry (Spec ?obj)) (OrasArtefact (Spec ?obj))
              ''{auth}'' = Returns \<lparr>Digest = ''sha256:ab12'',
                                     Files = [(''a.txt'', ''A''), (''b.txt'', ''B'')]\<rparr>"
    by (simp add: fetch_defs example_defs)
  have f: "filter_Files [(''a.txt'', ''A''), (''b.txt'', ''B'')] (sync_Files (Sync (Spec ?obj)))
             = [(''a.txt'', ''A'')]"
    by (simp add: filter_Files_def FilterMapInPlace_def range_map_def example_defs)
  have p: "pullsecret_calls ?obj = [GetSecret (''default'', ''pull'')]"
    by (simp add: pullsecret_calls_def example_defs)
  have r: "ArtefactRegistry (Spec ?obj) = ''registry.example/repo''"
          "OrasArtefact (Spec ?obj) = ''v1''"
          "(ref_Namespace (TargetSecret (Spec ?obj)), ref_Name (TargetSecret (Spec ?obj)))
             = (''default'', ''target'')"
    by (simp_all add: example_defs)
  have s: "secrets ?w = [(''default'', ''pull'') \<mapsto>
            example_Secret ''pull'' None [(''.dockerconfigjson'', ''{auth}'')]]"
       and c: "calls ?w = []"
    by (simp_all add: example_defs)
  from first_pass_creates_and_syncs [OF h1 h2 h3 h4 h5 h6 h7,
      THEN conjunct2, THEN conjunct2, THEN conjunct2]
  have "Reconcile example_env ?w ([], ''sync'') =
      (Returns (\<lparr>Requeue = False, RequeueAfter = 60 * Second\<rparr>, None),
       ?w\<lparr>secrets := (secrets ?w)
            ((''default'', ''target'') \<mapsto>
             (new_TargetSecret ?obj)
                \<lparr>Data := [(''a.txt'', ''A'')],
                 Annotations := Some [(rev_annotation, ''sha256:ab12'')]\<rparr>),
          calls := calls ?w @ [GetOCISecret ([], ''sync'')] @ [GetSecret (''default'', ''pull'')] @
            [CallGetDigest ''registry.example/repo'' ''v1'' ''{auth}'',
             GetSecret (''default'', ''target''),
             CreateSecret (new_TargetSecret ?obj),
             GetSecret (''default'', ''target''),
             CallGetFiles ''registry.example/repo'' ''v1'' ''{auth}'',
             UpdateSecret
               ((new_TargetSecret ?obj)
                  \<lparr>Data := [(''a.txt'', ''A'')],
                   Annotations := Some [(rev_annotation, ''sha256:ab12'')]\<rparr>)]\<rparr>)"
    by (simp add: f p r)
  then show ?thesis
    unfolding s c rev_annotation_def by simp
qed

subsection \<open>Two passes in succession\<close>

text \<open>
  Claim C4, as amended. Take a pass that returns a nil error, from a cluster in
  which every Secret is stored under its own name, with no failing call to the
  cluster in either pass, with credentials that resolve (from a pull secret that is
  not the target Secret), and with an artifact that does not change: the digest
  fetch returns a digest, and a content fetch that returns, returns that digest. If
  after that pass the target Secret holds as many entries as the list of files
  names (for an empty list: none), then the next pass makes the reads and the digest
  fetch only: no content fetch, no creation, no update, and the Secrets of the
  cluster are as the first pass left them.
\<close>

theorem second_pass_is_noop:
  assumes nofault: "\<forall>n. faults w n = None"
    and wf: "stored_by_name w"
    and obj: "ocisecrets w req = Some obj"
    and cred: "credential_resolves w obj secretData"
    and other: "pullsecret_calls obj = []
                \<or> (ref_Namespace (ArtefactPullSecret (Spec obj)),
                    ref_Name (ArtefactPullSecret (Spec obj)))
                   \<noteq> (ref_Namespace (TargetSecret (Spec obj)),
                       ref_Name (TargetSecret (Spec obj)))"
    and digest: "GetDigest env (ArtefactRegistry (Spec obj)) (OrasArtefact (Spec obj)) secretData
                   = Returns currentDigest"
    and unchanged: "\<forall>content.
           GetFiles env (ArtefactRegistry (Spec obj)) (OrasArtefact (Spec obj)) secretData
             = Returns content \<longrightarrow> Digest content = currentDigest"
    and first: "Reconcile env w req = (Returns (res, None), w1)"
    and count: "\<forall>t. secrets w1 (ref_Namespace (TargetSecret (Spec obj)),
                               ref_Name (TargetSecret (Spec obj))) = Some t \<longrightarrow>
                     len_map (Data t) = length (sync_Files (Sync (Spec obj)))"
  shows "Reconcile env w1 req =
           (Returns (\<lparr>Requeue = False, RequeueAfter = 60 * Second\<rparr>, None),
            w1\<lparr>calls := calls w1 @ [GetOCISecret req] @ pullsecret_calls obj @
                  [CallGetDigest (ArtefactRegistry (Spec obj)) (OrasArtefact (Spec obj))
                     secretData,
                   GetSecret (ref_Namespace (TargetSecret (Spec obj)),
                              ref_Name (TargetSecret (Spec obj))),
                   GetSecret (ref_Namespace (TargetSecret (Spec obj)),
                              ref_Name (TargetSecret (Spec obj)))]\<rparr>)
       \<and> secrets (snd (Reconcile env w1 req)) = secrets w1
       \<and> (\<forall>c \<in> set (drop (length (calls w1)) (calls (snd (Reconcile env w1 req)))).
             \<not> is_write c \<and> \<not> is_content_fetch c)"
proof -
  let ?tgt = "(ref_Namespace (TargetSecret (Spec obj)), ref_Name (TargetSecret (Spec obj)))"
  let ?pk = "(ref_Namespace (ArtefactPullSecret (Spec obj)),
              ref_Name (ArtefactPullSecret (Spec obj)))"
  let ?reg = "ArtefactRegistry (Spec obj)"
  let ?tag = "OrasArtefact (Spec obj)"
  let ?L = "sync_Files (Sync (Spec obj))"
  define t where "t = (case secrets w ?tgt of None \<Rightarrow> new_TargetSecret obj | Some t0 \<Rightarrow> t0)"
  have tg: "secrets w ?tgt = None \<and> t = new_TargetSecret obj \<or> secrets w ?tgt = Some t"
    by (simp add: t_def split: option.splits)
  have key: "(Namespace t, Name t) = ?tgt"
    using tg wf by (auto simp: stored_by_name_def new_TargetSecret_def)
  let ?W = "w\<lparr>secrets := (secrets w)(?tgt \<mapsto> t),
              calls := calls w @ [GetOCISecret req] @ pullsecret_calls obj @
                [CallGetDigest ?reg ?tag secretData, GetSecret ?tgt] @
                (if secrets w ?tgt = None then [CreateSecret (new_TargetSecret obj)] else []) @
                [GetSecret ?tgt]\<rparr>"
  have pass: "Reconcile env w req = Reconcile_update env ?W obj secretData currentDigest t"
    by (rule Reconcile_pass [OF nofault obj cred digest tg])
  with first have ru:
    "Reconcile_update env ?W obj secretData currentDigest t = (Returns (res, None), w1)"
    by simp
  \<comment> \<open>the state after the first pass\<close>
  have post: "\<exists>t1. secrets w1 = (secrets w)(?tgt \<mapsto> t1)
                \<and> index_Annotations (Annotations t1) rev_annotation = currentDigest
                \<and> faults w1 = faults w \<and> ocisecrets w1 = ocisecrets w"
  proof (cases "index_Annotations (Annotations t) rev_annotation \<noteq> currentDigest
                \<or> len_map (Data t) \<noteq> length ?L")
    case False
    then have "Reconcile_update env ?W obj secretData currentDigest t =
                 (Returns (\<lparr>Requeue = False, RequeueAfter = 60 * Second\<rparr>, None), ?W)"
      by (simp add: Reconcile_update_noop)
    with ru have "w1 = ?W" by simp
    with False show ?thesis by auto
  next
    case True
    show ?thesis
    proof (cases "GetFiles env ?reg ?tag secretData")
      case (Panics e)
      from Reconcile_update_fetch_panics [OF True Panics, of ?W]
      have "fst (Reconcile_update env ?W obj secretData currentDigest t) = Panics e"
        by simp
      with ru show ?thesis by simp
    next
      case (Returns content)
      show ?thesis
      proof (cases "Annotations t")
        case None
        from Reconcile_update_nil_annotations [OF True Returns None, of ?W] ru
        show ?thesis by simp
      next
        case (Some a)
        have n: "\<forall>n. faults ?W n = None" using nofault by simp
        have st: "secrets ?W (Namespace t, Name t) = Some t" using key by simp
        let ?t1 = "t\<lparr>Data := filter_Files (Files content) ?L,
                     Annotations := Some (AList.update rev_annotation (Digest content) a)\<rparr>"
        from Reconcile_update_sync [OF n st True Some Returns] ru key
        have w1: "w1 = ?W\<lparr>secrets := (secrets ?W)(?tgt \<mapsto> ?t1),
                          calls := calls ?W @ [CallGetFiles ?reg ?tag secretData,
                                               UpdateSecret ?t1]\<rparr>"
          by simp
        have "index_Annotations (Annotations ?t1) rev_annotation = Digest content"
          by (simp add: index_Annotations_def update_conv')
        with unchanged Returns
        have "index_Annotations (Annotations ?t1) rev_annotation = currentDigest" by simp
        with w1 show ?thesis by (intro exI [of _ ?t1]) simp
      qed
    qed
  qed
  then obtain t1 where t1: "secrets w1 = (secrets w)(?tgt \<mapsto> t1)"
      "index_Annotations (Annotations t1) rev_annotation = currentDigest"
      "faults w1 = faults w" "ocisecrets w1 = ocisecrets w"
    by blast
  have n1: "\<forall>n. faults w1 n = None" using nofault t1 by simp
  have o1: "ocisecrets w1 req = Some obj" using obj t1 by simp
  have s1: "secrets w1 ?tgt = Some t1" using t1 by simp
  have c1: "credential_resolves w1 obj secretData"
  proof (cases "ref_Name (ArtefactPullSecret (Spec obj)) = []
                \<or> ref_Namespace (ArtefactPullSecret (Spec obj)) = []")
    case True
    with cred show ?thesis by (simp add: credential_resolves_def)
  next
    case False
    with other have "?pk \<noteq> ?tgt" by (simp add: pullsecret_calls_def)
    then have "secrets w1 ?pk = secrets w ?pk" unfolding t1(1) by auto
    with cred False show ?thesis by (simp add: credential_resolves_def)
  qed
  from count s1 have l1: "len_map (Data t1) = length ?L" by simp
  note noop = Reconcile_noop_pass [OF n1 o1 c1 digest s1 t1(2) l1]
  show ?thesis
    unfolding noop
    by (auto simp: pullsecret_calls_def)
qed

text \<open>
  The theorem of claim C4 at the example cluster with a pull secret and the list of
  files \<open>a.txt\<close>, which the artifact has.
\<close>

theorem second_pass_is_noop_witness:
  "Reconcile example_env
     (snd (Reconcile example_env
        (example_world (example_OCISecret ''v1'' [''a.txt''] example_pull)
           [example_Secret ''pull'' None [(''.dockerconfigjson'', ''{auth}'')]])
        ([], ''sync'')))
     ([], ''sync'') =
   (Returns (\<lparr>Requeue = False, RequeueAfter = 60 * Second\<rparr>, None),
    (snd (Reconcile example_env
        (example_world (example_OCISecret ''v1'' [''a.txt''] example_pull)
           [example_Secret ''pull'' None [(''.dockerconfigjson'', ''{auth}'')]])
        ([], ''sync'')))
      \<lparr>calls :=
         calls (snd (Reconcile example_env
           (example_world (example_OCISecret ''v1'' [''a.txt''] example_pull)
              [example_Secret ''pull'' None [(''.dockerconfigjson'', ''{auth}'')]])
           ([], ''sync''))) @
         [GetOCISecret ([], ''sync''),
          GetSecret (''default'', ''pull''),
          CallGetDigest ''registry.example/repo'' ''v1'' ''{auth}'',
          GetSecret (''default'', ''target''),
          GetSecret (''default'', ''target'')]\<rparr>)"
proof -
  let ?obj = "example_OCISecret ''v1'' [''a.txt''] example_pull"
  let ?w = "example_world ?obj [example_Secret ''pull'' None [(''.dockerconfigjson'', ''{auth}'')]]"
  let ?res = "\<lparr>Requeue = False, RequeueAfter = 60 * Second\<rparr>"
  obtain w1 where w1: "snd (Reconcile example_env ?w ([], ''sync'')) = w1" by simp
  have h1: "\<forall>n. faults ?w n = None" by (simp add: example_defs)
  have h2: "stored_by_name ?w" by (simp add: stored_by_name_def example_defs)
  have h3: "ocisecrets ?w ([], ''sync'') = Some ?obj" by (simp add: example_defs)
  have h4: "credential_resolves ?w ?obj ''{auth}''"
    by (simp add: credential_resolves_def example_defs)
  have h5: "pullsecret_calls ?obj = []
        \<or> (ref_Namespace (ArtefactPullSecret (Spec ?obj)), ref_Name (ArtefactPullSecret (Spec ?obj)))
          \<noteq> (ref_Namespace (TargetSecret (Spec ?obj)), ref_Name (TargetSecret (Spec ?obj)))"
    by (simp add: example_defs)
  have h6: "GetDigest example_env (ArtefactRegistry (Spec ?obj)) (OrasArtefact (Spec ?obj))
              ''{auth}'' = Returns ''sha256:ab12''"
    by (simp add: fetch_defs example_defs)
  have h7: "\<forall>content. GetFiles example_env (ArtefactRegistry (Spec ?obj))
              (OrasArtefact (Spec ?obj)) ''{auth}'' = Returns content \<longrightarrow>
              Digest content = ''sha256:ab12''"
    by (auto simp: fetch_defs example_defs)
  have s: "secrets w1 (''default'', ''target'') =
      Some ((new_TargetSecret ?obj)\<lparr>Data := [(''a.txt'', ''A'')],
               Annotations := Some [(''OCISecret.operator.rev'', ''sha256:ab12'')]\<rparr>)"
    and f: "fst (Reconcile example_env ?w ([], ''sync'')) = Returns (?res, None)"
    unfolding w1 [symmetric]
    by (simp_all add: pass_defs fetch_defs example_defs FilterMapInPlace_def)
  from f w1 have h8: "Reconcile example_env ?w ([], ''sync'') = (Returns (?res, None), w1)"
    by (simp add: prod_eq_iff)
  have h9: "\<forall>t. secrets w1 (ref_Namespace (TargetSecret (Spec ?obj)),
                              ref_Name (TargetSecret (Spec ?obj))) = Some t \<longrightarrow>
                 len_map (Data t) = length (sync_Files (Sync (Spec ?obj)))"
    using s by (simp add: example_defs len_map_def range_map_def)
  have p: "pullsecret_calls ?obj = [GetSecret (''default'', ''pull'')]"
    by (simp add: pullsecret_calls_def example_defs)
  have r: "ArtefactRegistry (Spec ?obj) = ''registry.example/repo''"
          "OrasArtefact (Spec ?obj) = ''v1''"
          "(ref_Namespace (TargetSecret (Spec ?obj)), ref_Name (TargetSecret (Spec ?obj)))
             = (''default'', ''target'')"
    by (simp_all add: example_defs)
  from second_pass_is_noop [OF h1 h2 h3 h4 h5 h6 h7 h8 h9, THEN conjunct1]
  show ?thesis
    unfolding w1 by (simp add: p r)
qed

text \<open>
  Claim C4 as it is stated fails: with the list of files \<open>a.txt\<close>, \<open>c.txt\<close> and an
  artifact without \<open>c.txt\<close>, the first pass stores one entry, the list names two, and
  the second pass (its calls are those after the seven of the first) fetches the
  content and updates the target again, the digest being the same.
\<close>

theorem second_pass_counterexample:
  "fst (Reconcile example_env
          (example_world (example_OCISecret ''v1'' [''a.txt'', ''c.txt''] example_anonymous) [])
          ([], ''sync''))
     = Returns (\<lparr>Requeue = False, RequeueAfter = 60 * Second\<rparr>, None)
   \<and> drop 7 (calls (snd (Reconcile example_env
        (snd (Reconcile example_env
           (example_world (example_OCISecret ''v1'' [''a.txt'', ''c.txt''] example_anonymous) [])
           ([], ''sync'')))
        ([], ''sync'')))) =
     [GetOCISecret ([], ''sync''),
      CallGetDigest ''registry.example/repo'' ''v1'' [],
      GetSecret (''default'', ''target''),
      GetSecret (''default'', ''target''),
      CallGetFiles ''registry.example/repo'' ''v1'' [],
      UpdateSecret
        ((new_TargetSecret (example_OCISecret ''v1'' [''a.txt'', ''c.txt''] example_anonymous))
           \<lparr>Data := [(''a.txt'', ''A'')],
            Annotations := Some [(''OCISecret.operator.rev'', ''sha256:ab12'')]\<rparr>)]"
  by (simp add: pass_defs fetch_defs example_defs FilterMapInPlace_def)

end
